theory Spec2Isabelle
  imports Main "HOL-Library.Word" "HOL-Library.Log_Nat"
begin

section \<open>The crypt backend of rclone (backend/crypt/crypt.go)\<close>

text \<open>
  The file crypt.go wraps an underlying store: names are encrypted and decrypted by the
  Cipher, contents by the encrypter and the decrypter. The Cipher, the nonce arithmetic
  and the block loop live in cipher.go; the underlying store, the hash package and the
  sealed box are collaborators. Here the functions of crypt.go are embedded as they are
  written, collaborators are records of functions, Go's \<open>(value, error)\<close> results are
  sums or pairs, and logging and calls on the underlying store are a trace of events
  returned with each result. Where the subject of a log line is an object, the event
  keeps the name of the underlying object.
\<close>

subsection \<open>Bytes, errors, events\<close>

type_synonym byte = "8 word"

datatype hash_type = HashNone | HashMD5 | HashOther nat

text \<open>
  An error built by \<open>fmt.Errorf\<close> keeps its format string and its arguments; the sentinel
  errors are constructors; \<open>ErrorsNew\<close> is \<open>errors.New\<close>, \<open>Panic\<close> a run-time panic,
  \<open>InvalidByteError\<close> the error of \<open>encoding/hex\<close> that names the offending byte, and
  \<open>External\<close> an error value handed over by a collaborator.
\<close>

datatype err =
    ErrUnsupported
  | ErrorCommandNotFound
  | ErrorEncryptedBadBlock
  | Panic string
  | ErrorsNew string
  | InvalidByteError char
  | External string
  | Errorf string "arg list"
and arg =
    AStr string
  | AInt int
  | AErr err
  | AHash hash_type

datatype open_option =
    SeekOption int
  | RangeOption int int
  | CekOption "byte list"
  | OtherOption string

datatype event =
    Logf string string "arg list"
  | LogErrorf string string "arg list"
  | LogDebugf string string "arg list"
  | OpenEv string "open_option list"
  | CloseEv string
  | RemoveEv string
  | PutEv string int "byte list"

text \<open>int64 arithmetic wraps; sizes and offsets are int64.\<close>

definition wrap64 :: "int \<Rightarrow> int" where
  "wrap64 x = (x + 2 ^ 63) mod 2 ^ 64 - 2 ^ 63"


definition int64_sub :: "int \<Rightarrow> int \<Rightarrow> int" where
  "int64_sub a b = wrap64 (a - b)"

subsection \<open>The underlying store (fs.Object, fs.Directory, fs.Fs)\<close>

text \<open>
  An underlying object answers \<open>Remote\<close>, \<open>Size\<close>, \<open>Fs\<close> (printed), \<open>Open\<close> (the bytes
  its reader delivers for the given options, or an error), \<open>Hash\<close> and \<open>Remove\<close>.
\<close>

record src_info =
  si_Remote :: string
  si_Size :: int

record put_info =
  pi_Remote :: string
  pi_Size :: int

datatype uobject = UObject
  (u_Remote: string)
  (u_Size: int)
  (u_Fs_String: string)
  (u_Open: "open_option list \<Rightarrow> err + byte list")
  (u_Hash: "hash_type \<Rightarrow> err + string")
  (u_Remove: "err option")

record udirectory =
  d_Remote :: string

datatype DirEntry =
    EObject uobject
  | EDirectory udirectory
  | EUnknown string

text \<open>
  A put function of the underlying store is given the stream and the ObjectInfo (seen
  through its methods \<open>Remote\<close> and \<open>Size\<close>). By the contract of \<open>Put\<close> it returns the
  object and no error, or an error with or without the object; with it comes the number
  of bytes of the stream that were read.
\<close>

datatype put_result =
    PutOk uobject
  | PutFailed "uobject option" err

type_synonym putFn = "byte list \<Rightarrow> put_info \<Rightarrow> put_result \<times> nat"

record UFs =
  ufs_String :: string
  ufs_List :: "string \<Rightarrow> err + DirEntry list"
  ufs_ListR ::
    "string \<Rightarrow> (DirEntry list \<Rightarrow> err option \<times> event list) \<Rightarrow> err option \<times> event list"
  ufs_NewObject :: "string \<Rightarrow> err + uobject"
  ufs_Put :: putFn
  ufs_PutStream :: putFn
  ufs_PutUnchecked :: "putFn option"
  ufs_Mkdir :: "string \<Rightarrow> err option"
  ufs_Rmdir :: "string \<Rightarrow> err option"
  ufs_Hashes_GetOne :: hash_type

subsection \<open>Options, Object, ObjectInfo, Cipher, Fs\<close>

record Options =
  Remote :: string
  FilenameEncryption :: string
  DirectoryNameEncryption :: bool
  NoDataEncryption :: bool
  Password :: string
  Password2 :: string
  ServerSideAcrossConfigs :: bool
  ShowMapping :: bool
  PassBadBlocks :: bool
  FilenameEncoding :: string
  Suffix :: string
  StrictNames :: bool
  CipherVersion :: string
  ExactSize :: bool

type_synonym nonce = "byte list"
type_synonym cek = "byte list"

text \<open>The Object of crypt.go; its pointer \<open>f\<close> is passed to each method instead.\<close>

record Object =
  o_Object :: uobject
  decryptedSize :: int
  cipherVersion :: string

datatype CryptEntry =
    CObject Object
  | CDirectory string udirectory

record ObjectInfo =
  oi_ObjectInfo :: src_info
  oi_nonce :: nonce
  oi_cek :: cek

text \<open>The fields of the decrypter and the encrypter (cipher.go) that crypt.go reads.\<close>

record decrypter =
  dec_nonce :: nonce
  dec_cek :: cek
  dec_cipherVersion :: string
  dec_Close :: "err option"

record encrypter =
  enc_nonce :: nonce
  enc_initialNonce :: nonce
  enc_cek :: cek

text \<open>
  The Cipher is declared in cipher.go: its methods are parameters here, its three
  flags are fields. The methods that return \<open>(value, error)\<close> and whose value crypt.go
  uses even when the error is set return a pair.
\<close>

record Cipher =
  version :: string
  passBadBlocks :: bool
  exactSize :: bool
  EncryptFileName :: "string \<Rightarrow> string"
  EncryptDirName :: "string \<Rightarrow> string"
  DecryptFileName :: "string \<Rightarrow> err + string"
  DecryptDirName :: "string \<Rightarrow> err + string"
  EncryptedSize :: "int \<Rightarrow> int"
  DecryptedSize :: "int \<Rightarrow> string \<Rightarrow> int \<times> err option"
  DecryptedSizeExact :: "Object \<Rightarrow> int \<times> err option"
  newDecrypter :: "byte list \<Rightarrow> byte list option \<Rightarrow> Object \<Rightarrow> err + decrypter"
  encryptData :: "byte list \<Rightarrow> err + byte list \<times> encrypter"
  DecryptDataSeek ::
    "Object \<Rightarrow> (int \<Rightarrow> int \<Rightarrow> (err + byte list) \<times> event list) \<Rightarrow> int \<Rightarrow> int \<Rightarrow>
      byte list option \<Rightarrow> (err + byte list) \<times> event list"

record Fs =
  f_Fs :: UFs
  f_name :: string
  f_root :: string
  f_opt :: Options
  f_cipher :: Cipher

text \<open>
  Modelled from the spec: the constant \<open>CipherVersionV1\<close> of cipher.go, the value v1 of
  the option \<open>cipher_version\<close>.
\<close>

definition CipherVersionV1 :: string where
  "CipherVersionV1 = ''v1''"

text \<open>
  Modelled from the spec: the constant \<open>CipherVersionV2\<close> of cipher.go, the value v2 of
  the option \<open>cipher_version\<close>.
\<close>

definition CipherVersionV2 :: string where
  "CipherVersionV2 = ''v2''"

definition newObject :: "uobject \<Rightarrow> Object" where
  "newObject o' = \<lparr>o_Object = o', decryptedSize = - 1, cipherVersion = ''''\<rparr>"

definition newObjectInfo :: "src_info \<Rightarrow> nonce \<Rightarrow> cek \<Rightarrow> ObjectInfo" where
  "newObjectInfo src n c = \<lparr>oi_ObjectInfo = src, oi_nonce = n, oi_cek = c\<rparr>"

subsection \<open>Names and sizes\<close>

text \<open>Object.Remote: the decrypted name, or the stored name when it does not decrypt.\<close>

definition Object_Remote :: "Fs \<Rightarrow> Object \<Rightarrow> string \<times> event list" where
  "Object_Remote f ob =
     (let remote = u_Remote (o_Object ob) in
      case DecryptFileName (f_cipher f) remote of
        Inl e \<Rightarrow> (remote, [LogDebugf remote ''Undecryptable file name: %v'' [AErr e]])
      | Inr decryptedName \<Rightarrow> (decryptedName, []))"

definition ObjectInfo_Remote :: "Fs \<Rightarrow> ObjectInfo \<Rightarrow> string" where
  "ObjectInfo_Remote f oi = EncryptFileName (f_cipher f) (si_Remote (oi_ObjectInfo oi))"

definition ObjectInfo_Size :: "Fs \<Rightarrow> ObjectInfo \<Rightarrow> int" where
  "ObjectInfo_Size f oi =
     (let size = si_Size (oi_ObjectInfo oi) in
      if size < 0 then size
      else if NoDataEncryption (f_opt f) then size
      else EncryptedSize (f_cipher f) size)"


text \<open>The view of an ObjectInfo that a put function of the underlying store gets.\<close>

definition info_view :: "Fs \<Rightarrow> ObjectInfo \<Rightarrow> put_info" where
  "info_view f oi = \<lparr>pi_Remote = ObjectInfo_Remote f oi, pi_Size = ObjectInfo_Size f oi\<rparr>"

subsection \<open>Listing: add, addDir, newDir, encryptEntries, List, ListR\<close>

text \<open>
  \<open>add\<close> and \<open>addDir\<close> take the entries collected so far and return them, extended
  or not, with the error (or nil).
\<close>

definition add ::
  "Fs \<Rightarrow> CryptEntry list \<Rightarrow> uobject \<Rightarrow> (CryptEntry list \<times> err option) \<times> event list" where
  "add f entries obj =
     (let remote = u_Remote obj in
      case DecryptFileName (f_cipher f) remote of
        Inl e \<Rightarrow>
          if StrictNames (f_opt f)
          then ((entries, Some (Errorf ''%s: undecryptable file name detected: %v''
                                  [AStr remote, AErr e])), [])
          else ((entries, None), [Logf remote ''Skipping undecryptable file name: %v'' [AErr e]])
      | Inr decryptedRemote \<Rightarrow>
          ((entries @ [CObject (newObject obj)], None),
           if ShowMapping (f_opt f)
           then [Logf decryptedRemote ''Encrypts to %q'' [AStr remote]] else []))"

definition newDir :: "Fs \<Rightarrow> udirectory \<Rightarrow> CryptEntry \<times> event list" where
  "newDir f dir =
     (let remote = d_Remote dir in
      case DecryptDirName (f_cipher f) remote of
        Inl e \<Rightarrow> (CDirectory remote dir,
                  [LogDebugf remote ''Undecryptable dir name: %v'' [AErr e]])
      | Inr decryptedRemote \<Rightarrow> (CDirectory decryptedRemote dir, []))"

definition addDir ::
  "Fs \<Rightarrow> CryptEntry list \<Rightarrow> udirectory \<Rightarrow> (CryptEntry list \<times> err option) \<times> event list" where
  "addDir f entries dir =
     (let remote = d_Remote dir in
      case DecryptDirName (f_cipher f) remote of
        Inl e \<Rightarrow>
          if StrictNames (f_opt f)
          then ((entries, Some (Errorf ''%s: undecryptable dir name detected: %v''
                                  [AStr remote, AErr e])), [])
          else ((entries, None), [Logf remote ''Skipping undecryptable dir name: %v'' [AErr e]])
      | Inr decryptedRemote \<Rightarrow>
          (let (d, evs) = newDir f dir in
           ((entries @ [d], None),
            (if ShowMapping (f_opt f)
             then [Logf decryptedRemote ''Encrypts to %q'' [AStr remote]] else []) @ evs)))"

text \<open>
  The loop of \<open>encryptEntries\<close>, with its variables \<open>newEntries\<close>, \<open>errors\<close> and
  \<open>firsterr\<close>; an entry that is neither an object nor a directory ends it at once.
  \<open>newEntries\<close> shares the array of \<open>entries\<close>, and is never longer than the part of
  \<open>entries\<close> already read, so no entry is overwritten before the loop reads it.
\<close>

fun encryptEntries_loop ::
  "Fs \<Rightarrow> DirEntry list \<Rightarrow> CryptEntry list \<Rightarrow> int \<Rightarrow> err option \<Rightarrow> event list \<Rightarrow>
    (err + CryptEntry list) \<times> event list" where
  "encryptEntries_loop f [] newEntries errors firsterr evs =
     (case firsterr of
        Some fe \<Rightarrow>
          (Inl (Errorf ''there were %v undecryptable name errors. first error: %v''
                  [AInt errors, AErr fe]), evs)
      | None \<Rightarrow> (Inr newEntries, evs))"
| "encryptEntries_loop f (EUnknown t # rest) newEntries errors firsterr evs =
     (Inl (Errorf ''unknown object type %T'' [AStr t]), evs)"
| "encryptEntries_loop f (EObject x # rest) newEntries errors firsterr evs =
     (let ((newEntries', e), evs') = add f newEntries x in
      case e of
        Some e' \<Rightarrow> encryptEntries_loop f rest newEntries' (errors + 1)
                     (if firsterr = None then Some e' else firsterr) (evs @ evs')
      | None \<Rightarrow> encryptEntries_loop f rest newEntries' errors firsterr (evs @ evs'))"
| "encryptEntries_loop f (EDirectory x # rest) newEntries errors firsterr evs =
     (let ((newEntries', e), evs') = addDir f newEntries x in
      case e of
        Some e' \<Rightarrow> encryptEntries_loop f rest newEntries' (errors + 1)
                     (if firsterr = None then Some e' else firsterr) (evs @ evs')
      | None \<Rightarrow> encryptEntries_loop f rest newEntries' errors firsterr (evs @ evs'))"

definition encryptEntries :: "Fs \<Rightarrow> DirEntry list \<Rightarrow> (err + CryptEntry list) \<times> event list" where
  "encryptEntries f entries = encryptEntries_loop f entries [] 0 None []"

definition Fs_List :: "Fs \<Rightarrow> string \<Rightarrow> (err + CryptEntry list) \<times> event list" where
  "Fs_List f dir =
     (case ufs_List (f_Fs f) (EncryptDirName (f_cipher f) dir) of
        Inl e \<Rightarrow> (Inl e, [])
      | Inr entries \<Rightarrow> encryptEntries f entries)"

text \<open>The function that \<open>ListR\<close> hands to the underlying store for each tranche.\<close>

definition ListR_fn ::
  "Fs \<Rightarrow> (CryptEntry list \<Rightarrow> err option) \<Rightarrow> DirEntry list \<Rightarrow> err option \<times> event list" where
  "ListR_fn f callback entries =
     (case encryptEntries f entries of
        (Inl e, evs) \<Rightarrow> (Some e, evs)
      | (Inr newEntries, evs) \<Rightarrow> (callback newEntries, evs))"

definition Fs_ListR ::
  "Fs \<Rightarrow> string \<Rightarrow> (CryptEntry list \<Rightarrow> err option) \<Rightarrow> err option \<times> event list" where
  "Fs_ListR f dir callback =
     ufs_ListR (f_Fs f) (EncryptDirName (f_cipher f) dir) (ListR_fn f callback)"

subsection \<open>NewObject, Mkdir, Rmdir\<close>




text \<open>
  Notions used to state the listing property: the error with which the name of an
  entry fails to decrypt, the entry as the listing returns it, and the message logged
  when it is skipped.
\<close>

fun name_err :: "Fs \<Rightarrow> DirEntry \<Rightarrow> err option" where
  "name_err f (EObject x) =
     (case DecryptFileName (f_cipher f) (u_Remote x) of Inl e \<Rightarrow> Some e | Inr n \<Rightarrow> None)"
| "name_err f (EDirectory d) =
     (case DecryptDirName (f_cipher f) (d_Remote d) of Inl e \<Rightarrow> Some e | Inr n \<Rightarrow> None)"
| "name_err f (EUnknown t) = None"

fun listed :: "Fs \<Rightarrow> DirEntry \<Rightarrow> CryptEntry" where
  "listed f (EObject x) = CObject (newObject x)"
| "listed f (EDirectory d) = fst (newDir f d)"
| "listed f (EUnknown t) = CDirectory t \<lparr>d_Remote = t\<rparr>"

fun skip_message :: "DirEntry \<Rightarrow> err \<Rightarrow> event" where
  "skip_message (EObject x) e = Logf (u_Remote x) ''Skipping undecryptable file name: %v'' [AErr e]"
| "skip_message (EDirectory d) e = Logf (d_Remote d) ''Skipping undecryptable dir name: %v'' [AErr e]"
| "skip_message (EUnknown t) e = Logf t [] []"

fun strict_error :: "DirEntry \<Rightarrow> err \<Rightarrow> err" where
  "strict_error (EObject x) e =
     Errorf ''%s: undecryptable file name detected: %v'' [AStr (u_Remote x), AErr e]"
| "strict_error (EDirectory d) e =
     Errorf ''%s: undecryptable dir name detected: %v'' [AStr (d_Remote d), AErr e]"
| "strict_error (EUnknown t) e = e"

fun is_unknown :: "DirEntry \<Rightarrow> bool" where
  "is_unknown (EUnknown t) = True"
| "is_unknown e = False"

definition undecryptable :: "Fs \<Rightarrow> DirEntry list \<Rightarrow> DirEntry list" where
  "undecryptable f entries = filter (\<lambda>e. name_err f e \<noteq> None) entries"

definition decryptable :: "Fs \<Rightarrow> DirEntry list \<Rightarrow> DirEntry list" where
  "decryptable f entries = filter (\<lambda>e. name_err f e = None) entries"

subsection \<open>Collaborators outside the package\<close>

text \<open>
  The sealed box (\<open>secretbox.Open\<close> returns the plaintext, or nothing when the
  authentication fails), the hash package, the global configuration, the decoding of
  a range option, and the platform's conversion of a float64 outside the range of uint64,
  which the language leaves to the implementation. \<open>decryptCmd\<close> stands for the method
  of that name, whose work is on the local store.
\<close>

record Env =
  secretbox_Open :: "byte list \<Rightarrow> nonce \<Rightarrow> cek \<Rightarrow> byte list option"
  secretbox_Seal :: "byte list \<Rightarrow> nonce \<Rightarrow> cek \<Rightarrow> byte list"
  NewMultiHasherTypes :: "hash_type \<Rightarrow> err + (byte list \<Rightarrow> string)"
  IgnoreChecksum :: bool
  RangeOption_Decode :: "int \<Rightarrow> int \<Rightarrow> int \<Rightarrow> int \<times> int"
  uint64_out_of_range :: "int \<Rightarrow> int"
  decryptCmd :: "string \<Rightarrow> byte list \<Rightarrow> string \<Rightarrow> err option"

subsection \<open>Constants\<close>

definition HashCryptSize :: int where
  "HashCryptSize = 16"

definition secretbox_Overhead :: int where
  "secretbox_Overhead = 16"

definition HashEncryptedSize :: int where
  "HashEncryptedSize = HashCryptSize + secretbox_Overhead"

definition HashEncryptedSizeWithHeader :: int where
  "HashEncryptedSizeWithHeader = 1 + HashEncryptedSize"

definition HashHeaderNoHash :: "byte list" where
  "HashHeaderNoHash = [0x00]"

definition HashHeaderMD5 :: "byte list" where
  "HashHeaderMD5 = [0x01]"

text \<open>
  Modelled from the spec: the constant \<open>fileHeaderSize\<close> of cipher.go, the size of the
  header of version 1 (magic and nonce), 32 bytes.
\<close>

definition fileHeaderSize :: int where
  "fileHeaderSize = 32"

text \<open>
  Modelled from the spec: the constant \<open>fileHeaderSizeV2\<close> of cipher.go, the size of the
  header of version 2 with the wrapped key, 80 bytes.
\<close>

definition fileHeaderSizeV2 :: int where
  "fileHeaderSizeV2 = 80"

text \<open>
  Modelled from the spec: the constant \<open>fileCekSize\<close> of cipher.go, the 32 bytes of a
  content-encryption key.
\<close>

definition fileCekSize :: nat where
  "fileCekSize = 32"

text \<open>
  Modelled from the spec: the constant \<open>blockSize\<close> of cipher.go, by which \<open>Object.Hash\<close>
  divides the decrypted size to count the blocks: a block is 65536 bytes of plaintext.
  The spec gives a second size, the 65552 bytes of a block of ciphertext; were the name
  bound to that one in cipher.go, the block counts below would differ.
\<close>

definition blockSize :: int where
  "blockSize = 65536"

text \<open>
  Modelled from the spec: the constant \<open>lastBlockFlag\<close> of cipher.go, the byte with bit 7
  set.
\<close>

definition lastBlockFlag :: byte where
  "lastBlockFlag = 0x80"

subsection \<open>encoding/hex\<close>

definition hexdigit :: "nat \<Rightarrow> char" where
  "hexdigit n = ''0123456789abcdef'' ! (n mod 16)"

definition hex_EncodeToString :: "byte list \<Rightarrow> string" where
  "hex_EncodeToString bs =
     concat (map (\<lambda>b. [hexdigit (unat b div 16), hexdigit (unat b mod 16)]) bs)"

definition fromHexChar :: "char \<Rightarrow> nat option" where
  "fromHexChar c =
     (let n = (of_char c :: nat) in
      if 48 \<le> n \<and> n \<le> 57 then Some (n - 48)
      else if 97 \<le> n \<and> n \<le> 102 then Some (n - 97 + 10)
      else if 65 \<le> n \<and> n \<le> 70 then Some (n - 65 + 10)
      else None)"

definition ErrLength :: err where
  "ErrLength = ErrorsNew ''encoding/hex: odd length hex string''"

text \<open>
  The bytes are decoded pair by pair; the first byte that is no hex digit ends the decoding
  with the error that names it, and a single byte left over is checked before the length is
  reported.
\<close>

fun hex_DecodeString :: "string \<Rightarrow> err + byte list" where
  "hex_DecodeString [] = Inr []"
| "hex_DecodeString [c] =
     (case fromHexChar c of
        None \<Rightarrow> Inl (InvalidByteError c)
      | Some x \<Rightarrow> Inl ErrLength)"
| "hex_DecodeString (a # b # rest) =
     (case fromHexChar a of
        None \<Rightarrow> Inl (InvalidByteError a)
      | Some x \<Rightarrow>
          (case fromHexChar b of
             None \<Rightarrow> Inl (InvalidByteError b)
           | Some y \<Rightarrow>
               (case hex_DecodeString rest of
                  Inl e \<Rightarrow> Inl e
                | Inr bs \<Rightarrow> Inr (of_nat (16 * x + y) # bs))))"

subsection \<open>float64 on the values the block count needs\<close>

text \<open>
  A finite float64 is a pair \<open>(m, e)\<close> of value \<open>m * 2 ^ e\<close>. \<open>round_ratio a b\<close> is the
  quotient of two positive integers rounded to 53 significant bits, ties to even, as the
  conversion of an int64 and the division of two float64 round. The magnitudes met here
  are far from the subnormal range and from overflow.
\<close>

type_synonym float64 = "int \<times> int"

definition scale2 :: "int \<Rightarrow> int \<Rightarrow> int \<Rightarrow> int \<times> int" where
  "scale2 a b e = (if 0 \<le> e then (a, b * 2 ^ nat e) else (a * 2 ^ nat (- e), b))"

definition round_ratio :: "int \<Rightarrow> int \<Rightarrow> float64" where
  "round_ratio a b =
     (let k = bitlen a - bitlen b;
          (n0, d0) = scale2 a b k;
          e = (if d0 \<le> n0 then k else k - 1) - 52;
          (n, d) = scale2 a b e;
          q = n div d;
          r = n mod d;
          m = (if d < 2 * r \<or> (2 * r = d \<and> odd q) then q + 1 else q)
      in (m, e))"

definition float64_of_int64 :: "int \<Rightarrow> float64" where
  "float64_of_int64 x =
     (if x = 0 then (0, 0)
      else if x < 0 then (let (m, e) = round_ratio (- x) 1 in (- m, e))
      else round_ratio x 1)"

text \<open>Division by a float64 other than zero.\<close>

definition float64_div :: "float64 \<Rightarrow> float64 \<Rightarrow> float64" where
  "float64_div x y =
     (let (m1, e1) = x; (m2, e2) = y in
      if m1 = 0 then (0, 0)
      else (let (m, e) = round_ratio \<bar>m1\<bar> \<bar>m2\<bar> in
            (if (m1 < 0) = (m2 < 0) then m else - m, e + e1 - e2)))"

definition math_Ceil :: "float64 \<Rightarrow> float64" where
  "math_Ceil x =
     (let (m, e) = x in
      if 0 \<le> e then (m * 2 ^ nat e, 0) else (- ((- m) div 2 ^ nat (- e)), 0))"

text \<open>
  The conversion \<open>uint64(x)\<close> of a float64, a uint64 being an integer from 0 to
  \<open>2 ^ 64 - 1\<close>: the fraction is discarded; a value outside the range of uint64 gives
  what the platform gives.
\<close>

definition uint64_of_float64 :: "Env \<Rightarrow> float64 \<Rightarrow> int" where
  "uint64_of_float64 env x =
     (let (m, e) = x;
          v = (if 0 \<le> e then m * 2 ^ nat e
               else if 0 \<le> m then m div 2 ^ nat (- e) else - ((- m) div 2 ^ nat (- e)))
      in if 0 \<le> v \<and> v < 2 ^ 64 then v else uint64_out_of_range env v)"

text \<open>
  \<open>totalBlocks := uint64(math.Ceil(float64(decryptedSize) / float64(blockSize)))\<close>
\<close>

definition totalBlocks :: "Env \<Rightarrow> int \<Rightarrow> int" where
  "totalBlocks env decryptedSize' =
     uint64_of_float64 env
       (math_Ceil (float64_div (float64_of_int64 decryptedSize') (float64_of_int64 blockSize)))"

subsection \<open>Nonces\<close>

text \<open>The value of a nonce, an array of bytes read as a little-endian unsigned integer.\<close>

fun nonce_value :: "nonce \<Rightarrow> int" where
  "nonce_value [] = 0"
| "nonce_value (b # bs) = uint b + 256 * nonce_value bs"

text \<open>
  Modelled from the spec: the addition of \<open>nonce.add\<close> (cipher.go), byte by byte from the
  least significant one, with the carry that is left after the last byte.
\<close>

fun add_carry :: "nonce \<Rightarrow> int \<Rightarrow> nonce \<times> int" where
  "add_carry [] c = ([], c)"
| "add_carry (b # bs) c =
     (let s = uint b + c; (bs', c') = add_carry bs (s div 256)
      in (of_int (s mod 256) # bs', c'))"

text \<open>
  Modelled from the spec: \<open>nonce.add\<close> (cipher.go). The nonce is a little-endian unsigned
  integer, \<open>add\<close> adds to it, and an overflow of the counter is fatal.
\<close>

definition nonce_add :: "nonce \<Rightarrow> int \<Rightarrow> nonce option" where
  "nonce_add n k = (let (n', c) = add_carry n k in if c = 0 then Some n' else None)"

text \<open>
  \<open>n[len(n)-1] = lastBlockFlag\<close>, on a nonce, which is an array of 24 bytes.
\<close>

definition setLastByte :: "nonce \<Rightarrow> nonce" where
  "setLastByte n = n[length n - 1 := lastBlockFlag]"

subsection \<open>getDecrypter and Object.Hash\<close>

definition isZero :: "nonce \<Rightarrow> bool" where
  "isZero n = list_all (\<lambda>b. b = 0) n"

definition getDecrypter ::
  "Fs \<Rightarrow> Object \<Rightarrow> byte list option \<Rightarrow> (err + decrypter) \<times> event list" where
  "getDecrypter f ob overrideCek =
     (let remote = u_Remote (o_Object ob);
          opts = [RangeOption 0 (max fileHeaderSize fileHeaderSizeV2 - 1)]
      in case u_Open (o_Object ob) opts of
           Inl e \<Rightarrow>
             (Inl (Errorf ''failed to open object to read nonce: %w'' [AErr e]),
              [OpenEv remote opts])
         | Inr in' \<Rightarrow>
             (case newDecrypter (f_cipher f) in' overrideCek ob of
                Inl e \<Rightarrow>
                  (Inl (Errorf ''failed to open object to read nonce: %w'' [AErr e]),
                   [OpenEv remote opts, CloseEv remote])
              | Inr d \<Rightarrow>
                  (let evs = [OpenEv remote opts] @
                         (if isZero (dec_nonce d)
                          then [LogErrorf remote ''empty nonce read'' []] else []) @
                         [CloseEv remote]
                   in case dec_Close d of
                        Some e \<Rightarrow>
                          (Inl (Errorf ''failed to close nonce read: %w'' [AErr e]), evs)
                      | None \<Rightarrow> (Inr d, evs))))"

text \<open>
  The nonce under which \<open>Object.Hash\<close> opens the sealed hash: the nonce of the header
  plus \<open>totalBlocks\<close>, its last byte then set to \<open>lastBlockFlag\<close>.
\<close>

definition hashNonce :: "Env \<Rightarrow> nonce \<Rightarrow> int \<Rightarrow> nonce option" where
  "hashNonce env n decryptedSize' =
     (case nonce_add n (totalBlocks env decryptedSize') of
        None \<Rightarrow> None
      | Some n' \<Rightarrow> Some (setLastByte n'))"

text \<open>
  The last part of \<open>Object.Hash\<close>: the sealed hash is opened and printed in hexadecimal.
  When the box does not open, \<open>decryptedHash\<close> is empty.
\<close>

definition openHash ::
  "Env \<Rightarrow> Fs \<Rightarrow> string \<Rightarrow> byte list \<Rightarrow> nonce \<Rightarrow> cek \<Rightarrow> (err + string) \<times> event list" where
  "openHash env f remote encryptedHash n k =
     (case secretbox_Open env encryptedHash n k of
        None \<Rightarrow>
          if \<not> passBadBlocks (f_cipher f)
          then (Inl (Errorf ''Hash decryption error: %s'' [AErr ErrorEncryptedBadBlock]), [])
          else (Inr (hex_EncodeToString []),
                [LogErrorf [] ''crypt: ignoring hash decryption error: %v''
                   [AErr ErrorEncryptedBadBlock],
                 LogDebugf remote ''Crypt hash %s'' [AStr (hex_EncodeToString [])]])
      | Some decryptedHash \<Rightarrow>
          (Inr (hex_EncodeToString decryptedHash),
           [LogDebugf remote ''Crypt hash %s'' [AStr (hex_EncodeToString decryptedHash)]]))"

text \<open>
  The part of \<open>Object.Hash\<close> after the footer is read: the header byte is looked at,
  the decrypted size is worked out, the nonce is derived and the hash is opened.
\<close>

definition hashFromFooter ::
  "Env \<Rightarrow> Fs \<Rightarrow> Object \<Rightarrow> decrypter \<Rightarrow> byte list \<Rightarrow> (err + string) \<times> event list" where
  "hashFromFooter env f ob d encryptedHashWithHeader =
     (let hashHeader = take 1 encryptedHashWithHeader;
          encryptedHash = drop 1 encryptedHashWithHeader
      in if hashHeader = HashHeaderNoHash then (Inl ErrUnsupported, [])
         else
           (let (decryptedSize', e) =
                  (if exactSize (f_cipher f)
                   then DecryptedSizeExact (f_cipher f) ob
                   else DecryptedSize (f_cipher f) (u_Size (o_Object ob)) (dec_cipherVersion d))
            in case e of
                 Some e' \<Rightarrow> (Inl e', [])
               | None \<Rightarrow>
                   (case hashNonce env (dec_nonce d) decryptedSize' of
                      None \<Rightarrow> (Inl (Panic ''nonce overflow''), [])
                    | Some n' \<Rightarrow>
                        openHash env f (u_Remote (o_Object ob)) encryptedHash n' (dec_cek d))))"

text \<open>
  \<open>Object.Hash\<close>. \<open>readers.ReadFill\<close> fills the buffer of 33 bytes from the reader
  and its error is dropped: \<open>n\<close> is the number of bytes that came.
\<close>

definition Object_Hash ::
  "Env \<Rightarrow> Fs \<Rightarrow> Object \<Rightarrow> hash_type \<Rightarrow> (err + string) \<times> event list" where
  "Object_Hash env f ob ht =
     (if CipherVersion (f_opt f) = CipherVersionV1 then (Inl ErrUnsupported, [])
      else
        case getDecrypter f ob None of
          (Inl e, evs) \<Rightarrow> (Inl e, evs)
        | (Inr d, evs) \<Rightarrow>
            if dec_cipherVersion d = CipherVersionV1 then (Inr [], evs)
            else
              (let remote = u_Remote (o_Object ob);
                   encryptedSize = u_Size (o_Object ob);
                   opts = [RangeOption (int64_sub encryptedSize HashEncryptedSizeWithHeader)
                             (int64_sub encryptedSize 1)];
                   evs1 = evs @ [OpenEv remote opts]
               in case u_Open (o_Object ob) opts of
                    Inl e \<Rightarrow>
                      (Inl (Errorf ''failed to open object to read hash: %w'' [AErr e]), evs1)
                  | Inr in' \<Rightarrow>
                      (let encryptedHashWithHeader = take (nat HashEncryptedSizeWithHeader) in';
                           n = int (length encryptedHashWithHeader)
                       in if n \<noteq> HashEncryptedSizeWithHeader
                          then (Inl (Errorf ''incorrect encrypted hash size: %d'' [AInt n]), evs1)
                          else
                            (let (r, evs2) = hashFromFooter env f ob d encryptedHashWithHeader
                             in (r, evs1 @ evs2)))))"

definition Fs_Hashes :: "Fs \<Rightarrow> hash_type set" where
  "Fs_Hashes f = (if version (f_cipher f) = CipherVersionV2 then {HashMD5} else {})"

subsection \<open>The footer written by wrapReaderAppendPlaintextHash\<close>

text \<open>
  The lazy reader runs when the ciphertext reader \<open>in\<close> is exhausted: \<open>hash\<close> is what the
  hasher holds then and \<open>enc\<close> is the encrypter as its block loop left it. The result is
  what the joined reader delivers, and the error it ends with, if any.
\<close>

definition footerNonce :: "encrypter \<Rightarrow> nonce" where
  "footerNonce enc = setLastByte (enc_nonce enc)"

definition hashEndReader :: "Env \<Rightarrow> string \<Rightarrow> encrypter \<Rightarrow> err + byte list" where
  "hashEndReader env hash enc =
     (case hex_DecodeString hash of
        Inl e \<Rightarrow> Inl e
      | Inr byteHash \<Rightarrow>
          (let encryptedHash = secretbox_Seal env byteHash (footerNonce enc) (enc_cek enc);
               encryptedHashWithHeader = HashHeaderMD5 @ encryptedHash
           in Inr (take (nat HashEncryptedSizeWithHeader) encryptedHashWithHeader)))"

definition wrapReaderAppendPlaintextHash ::
  "Env \<Rightarrow> byte list \<Rightarrow> string \<Rightarrow> encrypter \<Rightarrow> byte list \<times> err option" where
  "wrapReaderAppendPlaintextHash env in' hash enc =
     (case hashEndReader env hash enc of
        Inl e \<Rightarrow> (in', Some e)
      | Inr footer \<Rightarrow> (in' @ footer, None))"

text \<open>
  Modelled from the spec: the number of blocks of a plaintext of \<open>p\<close> bytes, each block
  but the last holding 65536 bytes.
\<close>

definition plaintextBlocks :: "int \<Rightarrow> int" where
  "plaintextBlocks p = (p + 65535) div 65536"

text \<open>
  Modelled from the spec: the nonce of the encrypter when its block loop (\<open>encrypter.Read\<close>,
  cipher.go) has read a plaintext of \<open>p\<close> bytes. The block nonces are \<open>startNonce\<close>,
  \<open>startNonce + 1\<close>, ..., one for each block, and the nonce is incremented after each
  block.
\<close>

definition encrypterNonceAtEOF :: "nonce \<Rightarrow> int \<Rightarrow> nonce option" where
  "encrypterNonceAtEOF startNonce p = nonce_add startNonce (plaintextBlocks p)"

subsection \<open>put, Put, PutStream, Update\<close>

text \<open>
  What \<open>put\<close> returns as its object: an Object of this package, or, on the path without
  data encryption, the object of the underlying store as the put function gave it
  together with an error.
\<close>

datatype put_obj = Wrapped Object | Raw uobject

text \<open>
  The end of \<open>put\<close>: the hash of the bytes that went through the hasher is compared
  with the hash that the destination reports.
\<close>

definition checkHashes ::
  "Fs \<Rightarrow> src_info \<Rightarrow> hash_type \<Rightarrow> (byte list \<Rightarrow> string) option \<Rightarrow> byte list \<Rightarrow> uobject \<Rightarrow>
    (put_obj option \<times> err option) \<times> event list" where
  "checkHashes f src ht hasher sent o' =
     (case hasher of
        None \<Rightarrow> ((Some (Wrapped (newObject o')), None), [])
      | Some hsum \<Rightarrow>
          if ht = HashNone then ((Some (Wrapped (newObject o')), None), [])
          else
            (let srcHash = hsum sent in
             case u_Hash o' ht of
               Inl e \<Rightarrow>
                 ((None, Some (Errorf ''failed to read destination hash: %w'' [AErr e])), [])
             | Inr dstHash \<Rightarrow>
                 if srcHash \<noteq> [] \<and> dstHash \<noteq> [] then
                   (if srcHash \<noteq> dstHash then
                      ((None,
                        Some (Errorf
                          ''corrupted on transfer: %v encrypted hashes differ src(%s) %q vs dst(%s) %q''
                          [AHash ht, AStr (ufs_String (f_Fs f)), AStr srcHash,
                           AStr (u_Fs_String o'), AStr dstHash])),
                       RemoveEv (u_Remote o') #
                       (case u_Remove o' of
                          Some e \<Rightarrow>
                            [LogErrorf (u_Remote o') ''Failed to remove corrupted object: %v''
                               [AErr e]]
                        | None \<Rightarrow> []))
                    else
                      ((Some (Wrapped (newObject o')), None),
                       [LogDebugf (si_Remote src) ''%v = %s OK'' [AHash ht, AStr srcHash]]))
                 else ((Some (Wrapped (newObject o')), None), [])))"

definition put ::
  "Env \<Rightarrow> Fs \<Rightarrow> byte list \<Rightarrow> src_info \<Rightarrow> putFn \<Rightarrow>
    (put_obj option \<times> err option) \<times> event list" where
  "put env f in' src put' =
     (if NoDataEncryption (f_opt f) then
        (let info = info_view f (newObjectInfo src (replicate 24 0) (replicate fileCekSize 0));
             (r, n) = put' in' info;
             evs = [PutEv (pi_Remote info) (pi_Size info) in']
         in case r of
              PutOk o' \<Rightarrow> ((Some (Wrapped (newObject o')), None), evs)
            | PutFailed o' e \<Rightarrow> ((map_option Raw o', Some e), evs))
      else
        case encryptData (f_cipher f) in' of
          Inl e \<Rightarrow> ((None, Some e), [])
        | Inr (wrappedIn, encrypter) \<Rightarrow>
            (let ht = (if IgnoreChecksum env then HashNone else ufs_Hashes_GetOne (f_Fs f)) in
             case (if ht \<noteq> HashNone
                   then (case NewMultiHasherTypes env ht of
                           Inl e \<Rightarrow> Inl e | Inr hsum \<Rightarrow> Inr (Some hsum))
                   else Inr None) of
               Inl e \<Rightarrow> ((None, Some e), [])
             | Inr hasher \<Rightarrow>
                 (let info = info_view f
                               (newObjectInfo src (enc_initialNonce encrypter) (enc_cek encrypter));
                      (r, n) = put' wrappedIn info;
                      evs = [PutEv (pi_Remote info) (pi_Size info) wrappedIn]
                  in case r of
                       PutFailed o' e \<Rightarrow> ((None, Some e), evs)
                     | PutOk o' \<Rightarrow>
                         (let (res, evs') = checkHashes f src ht hasher (take n wrappedIn) o'
                          in (res, evs @ evs')))))"

definition Fs_Put ::
  "Env \<Rightarrow> Fs \<Rightarrow> byte list \<Rightarrow> src_info \<Rightarrow> (put_obj option \<times> err option) \<times> event list" where
  "Fs_Put env f in' src = put env f in' src (ufs_Put (f_Fs f))"

definition Fs_PutStream ::
  "Env \<Rightarrow> Fs \<Rightarrow> byte list \<Rightarrow> src_info \<Rightarrow> (put_obj option \<times> err option) \<times> event list" where
  "Fs_PutStream env f in' src = put env f in' src (ufs_PutStream (f_Fs f))"

text \<open>
  \<open>PutUnchecked\<close> does not look at \<open>NoDataEncryption\<close>: the stream is always wrapped by
  \<open>encryptData\<close>. The store may lack the feature.
\<close>

definition Fs_PutUnchecked ::
  "Fs \<Rightarrow> byte list \<Rightarrow> src_info \<Rightarrow> (err + Object) \<times> event list" where
  "Fs_PutUnchecked f in' src =
     (case ufs_PutUnchecked (f_Fs f) of
        None \<Rightarrow> (Inl (ErrorsNew ''can't PutUnchecked''), [])
      | Some do' \<Rightarrow>
          (case encryptData (f_cipher f) in' of
             Inl e \<Rightarrow> (Inl e, [])
           | Inr (wrappedIn, encrypter) \<Rightarrow>
               (let info = info_view f
                             (newObjectInfo src (enc_initialNonce encrypter) (enc_cek encrypter));
                    (r, n) = do' wrappedIn info;
                    evs = [PutEv (pi_Remote info) (pi_Size info) wrappedIn]
                in case r of
                     PutFailed o' e \<Rightarrow> (Inl e, evs)
                   | PutOk o' \<Rightarrow> (Inr (newObject o'), evs))))"

text \<open>
  \<open>Object.Update\<close>: \<open>upd\<close> is \<open>o.Object.Update\<close> of the underlying object, giving that
  object as it is after the call, the error (or nil) and the number of bytes read. The
  closure \<open>update\<close> always returns the object.
\<close>

definition update ::
  "(byte list \<Rightarrow> put_info \<Rightarrow> uobject \<times> err option \<times> nat) \<Rightarrow> putFn" where
  "update upd in' info =
     (case upd in' info of
        (o', None, n) \<Rightarrow> (PutOk o', n)
      | (o', Some e, n) \<Rightarrow> (PutFailed (Some o') e, n))"

definition Object_Update ::
  "Env \<Rightarrow> Fs \<Rightarrow> (byte list \<Rightarrow> put_info \<Rightarrow> uobject \<times> err option \<times> nat) \<Rightarrow> byte list \<Rightarrow>
    src_info \<Rightarrow> err option \<times> event list" where
  "Object_Update env f upd in' src =
     (let ((o', e), evs) = put env f in' src (update upd) in (e, evs))"

subsection \<open>Object.Open\<close>




subsection \<open>Command\<close>

datatype cmd_out = OutStrings "string list" | OutString string | OutNil

definition Fs_EncryptFileName :: "Fs \<Rightarrow> string \<Rightarrow> string" where
  "Fs_EncryptFileName f fileName = EncryptFileName (f_cipher f) fileName"

definition Fs_DecryptFileName :: "Fs \<Rightarrow> string \<Rightarrow> err + string" where
  "Fs_DecryptFileName f encryptedFileName = DecryptFileName (f_cipher f) encryptedFileName"

fun decode_loop :: "Fs \<Rightarrow> string list \<Rightarrow> string list \<Rightarrow> string list \<times> err option" where
  "decode_loop f [] out = (out, None)"
| "decode_loop f (encryptedFileName # rest) out =
     (case Fs_DecryptFileName f encryptedFileName of
        Inl e \<Rightarrow> (out, Some (Errorf ''failed to decrypt: %s: %w''
                               [AStr encryptedFileName, AErr e]))
      | Inr fileName \<Rightarrow> decode_loop f rest (out @ [fileName]))"

fun showcek_loop ::
  "Fs \<Rightarrow> string list \<Rightarrow> string list \<Rightarrow> event list \<Rightarrow> (cmd_out \<times> err option) \<times> event list" where
  "showcek_loop f [] out evs = ((OutStrings out, None), evs)"
| "showcek_loop f (fileName # rest) out evs =
     (case ufs_NewObject (f_Fs f) (Fs_EncryptFileName f fileName) of
        Inl e \<Rightarrow> ((OutString [], Some e), evs)
      | Inr object \<Rightarrow>
          (case getDecrypter f \<lparr>o_Object = object, decryptedSize = 0, cipherVersion = []\<rparr> None of
             (Inl e, evs') \<Rightarrow> ((OutString [], Some e), evs @ evs')
           | (Inr d, evs') \<Rightarrow>
               showcek_loop f rest (out @ [hex_EncodeToString (dec_cek d)]) (evs @ evs')))"

text \<open>
  The loop of \<open>decrypt\<close> runs on a list whose length is a multiple of three; the
  conversion of the decoded key to an array of \<open>fileCekSize\<close> bytes panics on a
  shorter key.
\<close>

fun decrypt_loop :: "Env \<Rightarrow> string list \<Rightarrow> cmd_out \<times> err option" where
  "decrypt_loop env (remotePath # cekHex # localPath # rest) =
     (case hex_DecodeString cekHex of
        Inl e \<Rightarrow> (OutNil, Some e)
      | Inr cekBytes \<Rightarrow>
          if length cekBytes < fileCekSize
          then (OutNil, Some (Panic ''cannot convert slice to array''))
          else
            (case decryptCmd env remotePath (take fileCekSize cekBytes) localPath of
               Some e \<Rightarrow> (OutNil, Some (Errorf ''failed copying %q to %q: %w''
                                          [AStr remotePath, AStr localPath, AErr e]))
             | None \<Rightarrow> decrypt_loop env rest))"
| "decrypt_loop env rest = (OutNil, None)"

definition Fs_Command ::
  "Env \<Rightarrow> Fs \<Rightarrow> string \<Rightarrow> string list \<Rightarrow> (cmd_out \<times> err option) \<times> event list" where
  "Fs_Command env f name arg =
     (if name = ''decode'' then
        (let (out, e) = decode_loop f arg [] in ((OutStrings out, e), []))
      else if name = ''encode'' then
        ((OutStrings (map (Fs_EncryptFileName f) arg), None), [])
      else if name = ''show-cek'' then showcek_loop f arg [] []
      else if name = ''decrypt'' then
        (if length arg mod 3 \<noteq> 0
         then ((OutNil, Some (ErrorsNew ''need sequence of 3 arguments'')), [])
         else (decrypt_loop env arg, []))
      else ((OutNil, Some ErrorCommandNotFound), []))"

section \<open>Notions used in the statements\<close>

text \<open>The error that \<open>add\<close> or \<open>addDir\<close> returns for an entry.\<close>

definition entry_error :: "Fs \<Rightarrow> DirEntry \<Rightarrow> err option" where
  "entry_error f e =
     (case name_err f e of
        None \<Rightarrow> None
      | Some er \<Rightarrow> if StrictNames (f_opt f) then Some (strict_error e er) else None)"

text \<open>The version that \<open>getDecrypter\<close> finds in the header of a stored object.\<close>

definition detectedVersion :: "Fs \<Rightarrow> Object \<Rightarrow> string option" where
  "detectedVersion f ob =
     (case fst (getDecrypter f ob None) of
        Inl e \<Rightarrow> None
      | Inr d \<Rightarrow> Some (dec_cipherVersion d))"

text \<open>
  A recursive listing of the underlying store that finds these tranches: the function is
  applied to one tranche after the other, its first error ends the listing and is the
  result, and after the last tranche the result is \<open>final\<close>, the error of the store itself
  or none.
\<close>

fun run_tranches ::
  "DirEntry list list \<Rightarrow> err option \<Rightarrow> (DirEntry list \<Rightarrow> err option \<times> event list) \<Rightarrow>
    err option \<times> event list" where
  "run_tranches [] final fn = (final, [])"
| "run_tranches (t # ts) final fn =
     (case fn t of
        (Some e, evs) \<Rightarrow> (Some e, evs)
      | (None, evs) \<Rightarrow> (let (r, evs') = run_tranches ts final fn in (r, evs @ evs')))"

text \<open>
  What the caller of \<open>ListR\<close> sees when its callback is given these lists of entries in
  turn: the first error of the callback, or \<open>final\<close>.
\<close>

fun deliver ::
  "(CryptEntry list \<Rightarrow> err option) \<Rightarrow> CryptEntry list list \<Rightarrow> err option \<Rightarrow> err option" where
  "deliver callback [] final = final"
| "deliver callback (x # xs) final =
     (case callback x of Some e \<Rightarrow> Some e | None \<Rightarrow> deliver callback xs final)"

section \<open>A small store for the examples\<close>

text \<open>
  A toy name cipher that prefixes a name with \<open>e\<close>, the size formulas of the container
  of version 2, a header whose eighth byte tells the version, and a toy sealed box whose
  tag is the first 16 bytes of the nonce, so that it opens under the nonce it was sealed
  with.
\<close>

definition ex_encrypt :: "string \<Rightarrow> string" where
  "ex_encrypt n = CHR ''e'' # n"

fun ex_decrypt :: "string \<Rightarrow> err + string" where
  "ex_decrypt [] = Inl (External ''not an encrypted name'')"
| "ex_decrypt (c # n) = (if c = CHR ''e'' then Inr n else Inl (External ''not an encrypted name''))"

definition ex_EncryptedSize :: "int \<Rightarrow> int" where
  "ex_EncryptedSize p = 80 + p + 16 * ((p + 65535) div 65536) + 33"

definition ex_DecryptedSize :: "int \<Rightarrow> string \<Rightarrow> int \<times> err option" where
  "ex_DecryptedSize c v =
     (let body = c - 80 - 33; n = body div 65552; r = body mod 65552 in
      if body < 0 then (0, Some (External ''file is too short''))
      else if r = 0 then (n * 65536, None)
      else if 17 \<le> r then (n * 65536 + (r - 16), None)
      else (0, Some (External ''bad ciphertext length'')))"

definition ex_DecryptedSizeExact :: "Object \<Rightarrow> int \<times> err option" where
  "ex_DecryptedSizeExact ob = ex_DecryptedSize (u_Size (o_Object ob)) ''v2''"

definition ex_newDecrypter :: "byte list \<Rightarrow> byte list option \<Rightarrow> Object \<Rightarrow> err + decrypter" where
  "ex_newDecrypter hdr overrideCek ob =
     (if length hdr < 32 then Inl (External ''file is too short'')
      else Inr \<lparr>dec_nonce = take 23 (drop 8 hdr) @ [0],
                dec_cek = take 32 (drop 48 hdr @ replicate 32 0),
                dec_cipherVersion = (if hdr ! 7 = 1 then ''v2'' else ''v1''),
                dec_Close = None\<rparr>)"

definition ex_encryptData :: "byte list \<Rightarrow> err + byte list \<times> encrypter" where
  "ex_encryptData p =
     Inr (replicate 32 0 @ p,
          \<lparr>enc_nonce = replicate 24 0, enc_initialNonce = replicate 24 0,
           enc_cek = replicate 32 0\<rparr>)"

definition ex_DecryptDataSeek ::
  "Object \<Rightarrow> (int \<Rightarrow> int \<Rightarrow> (err + byte list) \<times> event list) \<Rightarrow> int \<Rightarrow> int \<Rightarrow>
    byte list option \<Rightarrow> (err + byte list) \<times> event list" where
  "ex_DecryptDataSeek ob opener offset limit customCek = opener 0 (- 1)"

definition ex_cipher :: "string \<Rightarrow> Cipher" where
  "ex_cipher v =
     \<lparr>version = v, passBadBlocks = False, exactSize = False,
      EncryptFileName = ex_encrypt, EncryptDirName = ex_encrypt,
      DecryptFileName = ex_decrypt, DecryptDirName = ex_decrypt,
      EncryptedSize = ex_EncryptedSize, DecryptedSize = ex_DecryptedSize,
      DecryptedSizeExact = ex_DecryptedSizeExact, newDecrypter = ex_newDecrypter,
      encryptData = ex_encryptData, DecryptDataSeek = ex_DecryptDataSeek\<rparr>"

definition ex_opt :: "string \<Rightarrow> bool \<Rightarrow> bool \<Rightarrow> Options" where
  "ex_opt v strict nodata =
     \<lparr>Remote = ''remote:'', FilenameEncryption = ''standard'',
      DirectoryNameEncryption = True, NoDataEncryption = nodata, Password = ''p'',
      Password2 = [], ServerSideAcrossConfigs = False, ShowMapping = False,
      PassBadBlocks = False, FilenameEncoding = ''base32'', Suffix = ''.bin'',
      StrictNames = strict, CipherVersion = v, ExactSize = False\<rparr>"

definition ex_hash :: "hash_type \<Rightarrow> err + string" where
  "ex_hash ht = Inr []"

definition ex_open_empty :: "open_option list \<Rightarrow> err + byte list" where
  "ex_open_empty opts = Inr []"

definition ex_object :: "string \<Rightarrow> uobject" where
  "ex_object n = UObject n 5 ''remote:'' ex_open_empty ex_hash None"

definition ex_entries :: "DirEntry list" where
  "ex_entries =
     [EObject (ex_object ''ea''), EObject (ex_object ''plain''),
      EDirectory \<lparr>d_Remote = ''ed''\<rparr>, EDirectory \<lparr>d_Remote = ''other''\<rparr>]"

text \<open>
  The store has two directories, whose names are the encrypted names of the root and of
  \<open>sub\<close>; a recursive listing hands the root over in two tranches.
\<close>

definition ex_list :: "string \<Rightarrow> err + DirEntry list" where
  "ex_list dir =
     (if dir = ''e'' then Inr ex_entries
      else if dir = ''esub''
      then Inr [EObject (ex_object ''ea''), EDirectory \<lparr>d_Remote = ''ed''\<rparr>]
      else Inl (External ''directory not found''))"

definition ex_tranches :: "DirEntry list list" where
  "ex_tranches = [[EObject (ex_object ''ea'')], ex_entries]"

definition ex_listR ::
  "string \<Rightarrow> (DirEntry list \<Rightarrow> err option \<times> event list) \<Rightarrow> err option \<times> event list" where
  "ex_listR dir =
     (if dir = ''e'' then run_tranches ex_tranches None
      else (\<lambda>fn. (Some (External ''directory not found''), [])))"

definition ex_mkdir :: "string \<Rightarrow> err option" where
  "ex_mkdir dir = (if dir = ''enew'' then None else Some (External ''directory not found''))"

definition ex_newObject :: "string \<Rightarrow> err + uobject" where
  "ex_newObject n = Inr (ex_object n)"

definition ex_putFn :: putFn where
  "ex_putFn data info = (PutOk (ex_object (pi_Remote info)), length data)"

definition ex_ufs :: UFs where
  "ex_ufs =
     \<lparr>ufs_String = ''remote:'', ufs_List = ex_list, ufs_ListR = ex_listR,
      ufs_NewObject = ex_newObject, ufs_Put = ex_putFn, ufs_PutStream = ex_putFn,
      ufs_PutUnchecked = Some ex_putFn, ufs_Mkdir = ex_mkdir, ufs_Rmdir = ex_mkdir,
      ufs_Hashes_GetOne = HashMD5\<rparr>"

definition ex_fs :: "string \<Rightarrow> bool \<Rightarrow> bool \<Rightarrow> Fs" where
  "ex_fs v strict nodata =
     \<lparr>f_Fs = ex_ufs, f_name = ''crypt'', f_root = [], f_opt = ex_opt v strict nodata,
      f_cipher = ex_cipher v\<rparr>"

definition ex_Seal :: "byte list \<Rightarrow> nonce \<Rightarrow> cek \<Rightarrow> byte list" where
  "ex_Seal m n k = take 16 (n @ replicate 16 0) @ m"

definition ex_Open :: "byte list \<Rightarrow> nonce \<Rightarrow> cek \<Rightarrow> byte list option" where
  "ex_Open box n k =
     (if 16 \<le> length box \<and> take 16 box = take 16 (n @ replicate 16 0)
      then Some (drop 16 box) else None)"

definition ex_sum :: "byte list \<Rightarrow> string" where
  "ex_sum data = hex_EncodeToString (take 16 (data @ replicate 16 0))"

definition ex_hasher :: "hash_type \<Rightarrow> err + (byte list \<Rightarrow> string)" where
  "ex_hasher ht = Inr ex_sum"

definition ex_Decode :: "int \<Rightarrow> int \<Rightarrow> int \<Rightarrow> int \<times> int" where
  "ex_Decode s e size' = (s, e - s + 1)"

definition ex_uint64 :: "int \<Rightarrow> int" where
  "ex_uint64 v = v mod 2 ^ 64"

definition ex_decryptCmd :: "string \<Rightarrow> byte list \<Rightarrow> string \<Rightarrow> err option" where
  "ex_decryptCmd remotePath k localPath = None"

definition ex_env :: Env where
  "ex_env =
     \<lparr>secretbox_Open = ex_Open, secretbox_Seal = ex_Seal, NewMultiHasherTypes = ex_hasher,
      IgnoreChecksum = False, RangeOption_Decode = ex_Decode, uint64_out_of_range = ex_uint64,
      decryptCmd = ex_decryptCmd\<rparr>"
text \<open>
  Two stored objects with an empty plaintext. The one of version 2 is its header of 80
  bytes (magic, nonce, wrapped key) and its footer of 33 bytes, the MD5 of the empty
  plaintext sealed under the nonce of the header with its last byte set to the flag.
  The one of version 1 is its header of 32 bytes.
\<close>

definition ex_md5_empty :: "byte list" where
  "ex_md5_empty =
     [0xd4, 0x1d, 0x8c, 0xd9, 0x8f, 0x00, 0xb2, 0x04, 0xe9, 0x80, 0x09, 0x98, 0xec, 0xf8, 0x42, 0x7e]"

definition ex_nonce :: nonce where
  "ex_nonce = 7 # replicate 23 0"

definition ex_v2_header :: "byte list" where
  "ex_v2_header =
     [0x52, 0x43, 0x4c, 0x4f, 0x4e, 0x45, 0x00, 0x01] @ ex_nonce @ replicate 48 9"

definition ex_v2_footer :: "byte list" where
  "ex_v2_footer = 0x01 # ex_Seal ex_md5_empty (setLastByte ex_nonce) (replicate 32 9)"

definition ex_v2_content :: "byte list" where
  "ex_v2_content = ex_v2_header @ ex_v2_footer"

fun ex_slice :: "byte list \<Rightarrow> open_option list \<Rightarrow> err + byte list" where
  "ex_slice content [RangeOption s e] = Inr (take (nat (e - s + 1)) (drop (nat s) content))"
| "ex_slice content opts = Inr content"

definition ex_v2_object :: uobject where
  "ex_v2_object = UObject ''ea'' 113 ''remote:'' (ex_slice ex_v2_content) ex_hash None"

text \<open>
  A stored object of version 2 with 16 bytes between the header and the footer, which is
  the length of no sealed block.
\<close>

definition ex_short_object :: uobject where
  "ex_short_object =
     UObject ''ea'' 129 ''remote:''
       (ex_slice (ex_v2_header @ replicate 16 0 @ ex_v2_footer)) ex_hash None"

definition ex_v1_header :: "byte list" where
  "ex_v1_header = [0x52, 0x43, 0x4c, 0x4f, 0x4e, 0x45, 0x00, 0x00] @ ex_nonce"

definition ex_v1_object :: uobject where
  "ex_v1_object = UObject ''eb'' 32 ''remote:'' (ex_slice ex_v1_header) ex_hash None"

definition ex_callback :: "CryptEntry list \<Rightarrow> err option" where
  "ex_callback entries = None"

text \<open>A callback that stops the listing when it is given two entries at once.\<close>

definition ex_callback_two :: "CryptEntry list \<Rightarrow> err option" where
  "ex_callback_two entries =
     (if length entries = 2 then Some (External ''two entries'') else None)"

text \<open>
  A stored object of version 2 whose plaintext has \<open>2 ^ 53 + 1\<close> bytes, seen through its
  size, its header and its footer. The footer is what \<open>wrapReaderAppendPlaintextHash\<close>
  appends when the encrypter has read that plaintext.
\<close>

definition ex_big :: int where
  "ex_big = 9007199254740993"

definition ex_big_encrypter :: encrypter where
  "ex_big_encrypter =
     \<lparr>enc_nonce = (case encrypterNonceAtEOF ex_nonce ex_big of Some n \<Rightarrow> n | None \<Rightarrow> []),
      enc_initialNonce = ex_nonce, enc_cek = replicate 32 9\<rparr>"

definition ex_big_footer :: "byte list" where
  "ex_big_footer =
     drop 1 (fst (wrapReaderAppendPlaintextHash ex_env [0]
                    ''d41d8cd98f00b204e9800998ecf8427e'' ex_big_encrypter))"

fun ex_big_open :: "open_option list \<Rightarrow> err + byte list" where
  "ex_big_open [RangeOption s e] = (if s = 0 then Inr ex_v2_header else Inr ex_big_footer)"
| "ex_big_open opts = Inr []"

definition ex_big_object :: uobject where
  "ex_big_object =
     UObject ''ea'' (ex_EncryptedSize ex_big) ''remote:'' ex_big_open ex_hash None"

text \<open>
  A destination whose objects report a hash that is not the one of the data sent, and
  whose removal fails.
\<close>

definition ex_hash_other :: "hash_type \<Rightarrow> err + string" where
  "ex_hash_other ht = Inr ''ffffffffffffffffffffffffffffffff''"

definition ex_object_other :: "string \<Rightarrow> uobject" where
  "ex_object_other n =
     UObject n 5 ''remote:'' ex_open_empty ex_hash_other (Some (External ''cannot remove''))"

definition ex_putFn_other :: putFn where
  "ex_putFn_other data info = (PutOk (ex_object_other (pi_Remote info)), length data)"

section \<open>Lemmas\<close>

subsection \<open>The loops of decode and of encryptEntries\<close>

lemma decode_loop_prefix:
  "map (Fs_DecryptFileName f) pre = map Inr names \<Longrightarrow>
   decode_loop f (pre @ rest) out = decode_loop f rest (out @ names)"
proof (induction pre arbitrary: names out)
  case Nil
  then show ?case by simp
next
  case (Cons a pre)
  then obtain x xs where names: "names = x # xs" by (cases names) auto
  with Cons.prems have a: "Fs_DecryptFileName f a = Inr x"
    and rest: "map (Fs_DecryptFileName f) pre = map Inr xs" by auto
  show ?case using Cons.IH[OF rest, of "out @ [x]"] a names by simp
qed

lemma add_fst:
  "fst (add f ne x) =
     (if name_err f (EObject x) = None then (ne @ [listed f (EObject x)], None)
      else (ne, entry_error f (EObject x)))"
  by (auto simp: add_def entry_error_def Let_def split: sum.splits)

lemma addDir_fst:
  "fst (addDir f ne d) =
     (if name_err f (EDirectory d) = None then (ne @ [listed f (EDirectory d)], None)
      else (ne, entry_error f (EDirectory d)))"
  by (auto simp: addDir_def newDir_def entry_error_def Let_def split: sum.splits prod.splits)

lemma add_snd_skip:
  "\<not> StrictNames (f_opt f) \<Longrightarrow> name_err f (EObject x) = Some er \<Longrightarrow>
   snd (add f ne x) = [skip_message (EObject x) er]"
  by (auto simp: add_def Let_def split: sum.splits)

lemma addDir_snd_skip:
  "\<not> StrictNames (f_opt f) \<Longrightarrow> name_err f (EDirectory d) = Some er \<Longrightarrow>
   snd (addDir f ne d) = [skip_message (EDirectory d) er]"
  by (auto simp: addDir_def Let_def split: sum.splits)

lemma loop_fst:
  "\<forall>e\<in>set es. \<not> is_unknown e \<Longrightarrow>
   fst (encryptEntries_loop f es ne errors fe evs) =
     (let bad = filter (\<lambda>e. entry_error f e \<noteq> None) es;
          first = (case fe of Some x \<Rightarrow> Some x
                   | None \<Rightarrow> (case bad of [] \<Rightarrow> None | b # bs \<Rightarrow> entry_error f b))
      in case first of
           Some x \<Rightarrow> Inl (Errorf ''there were %v undecryptable name errors. first error: %v''
                           [AInt (errors + int (length bad)), AErr x])
         | None \<Rightarrow> Inr (ne @ map (listed f) (decryptable f es)))"
proof (induction es arbitrary: ne errors fe evs)
  case Nil
  then show ?case by (simp add: decryptable_def split: option.splits)
next
  case (Cons a es)
  then have IH: "\<And>ne errors fe evs. fst (encryptEntries_loop f es ne errors fe evs) =
     (let bad = filter (\<lambda>e. entry_error f e \<noteq> None) es;
          first = (case fe of Some x \<Rightarrow> Some x
                   | None \<Rightarrow> (case bad of [] \<Rightarrow> None | b # bs \<Rightarrow> entry_error f b))
      in case first of
           Some x \<Rightarrow> Inl (Errorf ''there were %v undecryptable name errors. first error: %v''
                           [AInt (errors + int (length bad)), AErr x])
         | None \<Rightarrow> Inr (ne @ map (listed f) (decryptable f es)))" by simp
  show ?case
  proof (cases a)
    case (EObject x)
    obtain r evs' where r: "add f ne x = (r, evs')" by (cases "add f ne x") auto
    with add_fst[of f ne x] have r': "r = (if name_err f (EObject x) = None then (ne @ [listed f (EObject x)], None)
      else (ne, entry_error f (EObject x)))" by simp
    have ee: "name_err f (EObject x) = None \<Longrightarrow> entry_error f (EObject x) = None"
      by (simp add: entry_error_def)
    show ?thesis
      using EObject r r' IH ee
      by (auto simp: Let_def decryptable_def split: option.splits list.splits)
  next
    case (EDirectory d)
    obtain r evs' where r: "addDir f ne d = (r, evs')" by (cases "addDir f ne d") auto
    with addDir_fst[of f ne d] have r': "r = (if name_err f (EDirectory d) = None then (ne @ [listed f (EDirectory d)], None)
      else (ne, entry_error f (EDirectory d)))" by simp
    have ee: "name_err f (EDirectory d) = None \<Longrightarrow> entry_error f (EDirectory d) = None"
      by (simp add: entry_error_def)
    show ?thesis
      using EDirectory r r' IH ee
      by (auto simp: Let_def decryptable_def split: option.splits list.splits)
  next
    case (EUnknown t)
    with Cons.prems show ?thesis by simp
  qed
qed

lemma loop_snd_mono:
  "set evs \<subseteq> set (snd (encryptEntries_loop f es ne errors fe evs))"
proof (induction es arbitrary: ne errors fe evs)
  case Nil
  then show ?case by (simp split: option.splits)
next
  case (Cons a es)
  show ?case
  proof (cases a)
    case (EObject x)
    obtain ne' e evs' where r: "add f ne x = ((ne', e), evs')" by (cases "add f ne x") auto
    show ?thesis
    proof (cases e)
      case None
      with EObject r Cons.IH[of "evs @ evs'" ne' errors fe] show ?thesis by auto
    next
      case (Some e')
      with EObject r Cons.IH[of "evs @ evs'" ne' "errors + 1" "if fe = None then Some e' else fe"]
      show ?thesis by auto
    qed
  next
    case (EDirectory d)
    obtain ne' e evs' where r: "addDir f ne d = ((ne', e), evs')" by (cases "addDir f ne d") auto
    show ?thesis
    proof (cases e)
      case None
      with EDirectory r Cons.IH[of "evs @ evs'" ne' errors fe] show ?thesis by auto
    next
      case (Some e')
      with EDirectory r Cons.IH[of "evs @ evs'" ne' "errors + 1" "if fe = None then Some e' else fe"]
      show ?thesis by auto
    qed
  next
    case (EUnknown t)
    then show ?thesis by simp
  qed
qed

lemma loop_snd_skip:
  "\<forall>e\<in>set es. \<not> is_unknown e \<Longrightarrow> \<not> StrictNames (f_opt f) \<Longrightarrow> e \<in> set es \<Longrightarrow>
   name_err f e = Some er \<Longrightarrow>
   skip_message e er \<in> set (snd (encryptEntries_loop f es ne errors fe evs))"
proof (induction es arbitrary: ne errors fe evs)
  case Nil
  then show ?case by simp
next
  case (Cons a es)
  show ?case
  proof (cases a)
    case (EObject x)
    obtain ne' e' evs' where r: "add f ne x = ((ne', e'), evs')" by (cases "add f ne x") auto
    have here: "e = a \<Longrightarrow> skip_message e er \<in> set (evs @ evs')"
      using add_snd_skip[of f x er ne] Cons.prems r EObject by simp
    have later: "e \<in> set es \<Longrightarrow> skip_message e er \<in>
        set (snd (encryptEntries_loop f es ne'' errors'' fe'' (evs @ evs')))" for ne'' errors'' fe''
      using Cons.IH[of ne'' errors'' fe'' "evs @ evs'"] Cons.prems by simp
    show ?thesis
    proof (cases "e = a")
      case True
      with here loop_snd_mono[of "evs @ evs'" f es] EObject r show ?thesis
        by (cases e') (auto simp del: set_append)
    next
      case False
      with Cons.prems have "e \<in> set es" by simp
      with later EObject r show ?thesis by (cases e') auto
    qed
  next
    case (EDirectory d)
    obtain ne' e' evs' where r: "addDir f ne d = ((ne', e'), evs')" by (cases "addDir f ne d") auto
    have here: "e = a \<Longrightarrow> skip_message e er \<in> set (evs @ evs')"
      using addDir_snd_skip[of f d er ne] Cons.prems r EDirectory by simp
    have later: "e \<in> set es \<Longrightarrow> skip_message e er \<in>
        set (snd (encryptEntries_loop f es ne'' errors'' fe'' (evs @ evs')))" for ne'' errors'' fe''
      using Cons.IH[of ne'' errors'' fe'' "evs @ evs'"] Cons.prems by simp
    show ?thesis
    proof (cases "e = a")
      case True
      with here loop_snd_mono[of "evs @ evs'" f es] EDirectory r show ?thesis
        by (cases e') (auto simp del: set_append)
    next
      case False
      with Cons.prems have "e \<in> set es" by simp
      with later EDirectory r show ?thesis by (cases e') auto
    qed
  next
    case (EUnknown t)
    with Cons.prems show ?thesis by simp
  qed
qed

lemma encryptEntries_lenient:
  assumes "\<forall>e\<in>set entries. \<not> is_unknown e" and "\<not> StrictNames (f_opt f)"
  shows "fst (encryptEntries f entries) = Inr (map (listed f) (decryptable f entries))"
proof -
  have "filter (\<lambda>e. entry_error f e \<noteq> None) entries = []"
    using assms(2) by (auto simp: entry_error_def filter_empty_conv split: option.splits)
  then show ?thesis
    using loop_fst[OF assms(1), of f "[]" 0 None "[]"]
    by (simp add: encryptEntries_def)
qed

lemma encryptEntries_strict:
  assumes "\<forall>e\<in>set entries. \<not> is_unknown e" and "StrictNames (f_opt f)"
    and "undecryptable f entries = b # bs" and "name_err f b = Some er"
  shows "fst (encryptEntries f entries) =
     Inl (Errorf ''there were %v undecryptable name errors. first error: %v''
            [AInt (1 + int (length bs)), AErr (strict_error b er)])"
proof -
  have "(\<lambda>e. entry_error f e \<noteq> None) = (\<lambda>e. name_err f e \<noteq> None)"
    using assms(2) by (auto simp: entry_error_def fun_eq_iff split: option.splits)
  then have "filter (\<lambda>e. entry_error f e \<noteq> None) entries = b # bs"
    using assms(3) by (simp add: undecryptable_def)
  moreover have "entry_error f b = Some (strict_error b er)"
    using assms(2,4) by (simp add: entry_error_def)
  ultimately show ?thesis
    using loop_fst[OF assms(1), of f "[]" 0 None "[]"]
    by (simp add: encryptEntries_def)
qed

lemma encryptEntries_skip_logged:
  assumes "\<forall>e\<in>set entries. \<not> is_unknown e" and "\<not> StrictNames (f_opt f)"
    and "e \<in> set entries" and "name_err f e = Some er"
  shows "skip_message e er \<in> set (snd (encryptEntries f entries))"
  using loop_snd_skip[OF assms] by (simp add: encryptEntries_def)

lemma ex_name_err:
  "name_err (ex_fs v s n) (EObject (ex_object ''ea'')) = None"
  "name_err (ex_fs v s n) (EObject (ex_object ''plain'')) = Some (External ''not an encrypted name'')"
  "name_err (ex_fs v s n) (EDirectory \<lparr>d_Remote = ''ed''\<rparr>) = None"
  "name_err (ex_fs v s n) (EDirectory \<lparr>d_Remote = ''other''\<rparr>) = Some (External ''not an encrypted name'')"
  by (simp_all add: ex_fs_def ex_cipher_def ex_object_def)

subsection \<open>The block count below 2 ^ 53 bytes\<close>

text \<open>
  A size below \<open>2 ^ 53\<close> is a float64, its quotient by the block size is one as well,
  and \<open>totalBlocks\<close> is the number of blocks.
\<close>

lemma bitlen_53: "4503599627370496 \<le> m \<Longrightarrow> m < 9007199254740992 \<Longrightarrow> bitlen m = 53"
proof -
  assume a: "4503599627370496 \<le> m" "m < 9007199254740992"
  have "bitlen m \<le> 53" using a(2) by (simp add: bitlen_le_iff_power)
  moreover have "53 \<le> bitlen m" using a(1) by (simp add: bitlen_ge_iff_power)
  ultimately show ?thesis by simp
qed

lemma round_ratio_normal:
  assumes "4503599627370496 \<le> m" "m < 9007199254740992"
  shows "round_ratio m 4503599627370496 = (m, - 52)"
proof -
  have b1: "bitlen m = 53" using assms by (rule bitlen_53)
  have b2: "bitlen 4503599627370496 = 53" by (rule bitlen_53) simp_all
  have s0: "scale2 m 4503599627370496 0 = (m, 4503599627370496)"
    by (simp add: scale2_def)
  have s1: "scale2 m 4503599627370496 (- 52) = (m * 4503599627370496, 4503599627370496)"
    by (simp add: scale2_def)
  show ?thesis
    unfolding round_ratio_def b1 b2 using assms(1) by (simp add: s0 s1)
qed

lemma round_ratio_int:
  assumes "0 < a" "a < 9007199254740992"
  shows "round_ratio a 1 = (a * 2 ^ nat (53 - bitlen a), bitlen a - 53)"
proof -
  have le: "bitlen a \<le> 53" using assms(2) by (simp add: bitlen_le_iff_power)
  have ge: "1 \<le> bitlen a" using assms(1) bitlen_eq_zero_iff[of a] bitlen_nonneg[of a] by linarith
  have lo: "2 ^ nat (bitlen a - 1) \<le> a" using bitlen_bounds[OF assms(1)] by simp
  have b1: "bitlen 1 = 1" by code_simp
  have s0: "scale2 a 1 (bitlen a - 1) = (a, 2 ^ nat (bitlen a - 1))"
    using ge by (simp add: scale2_def)
  have s1: "scale2 a 1 (bitlen a - 53) = (a * 2 ^ nat (53 - bitlen a), 1)"
  proof (cases "bitlen a = 53")
    case True
    then show ?thesis by (simp add: scale2_def)
  next
    case False
    with le have "bitlen a < 53" by simp
    then show ?thesis by (simp add: scale2_def)
  qed
  show ?thesis
    unfolding round_ratio_def b1 using lo by (simp add: s0 s1 Let_def)
qed

lemma float64_blockSize: "float64_of_int64 blockSize = (4503599627370496, - 36)"
  by code_simp

lemma ceil_div_65536: "- ((- p) div 65536) = ((p::int) + 65535) div 65536"
proof -
  define r where "r = p mod 65536"
  have r: "0 \<le> r" "r < 65536" by (simp_all add: r_def)
  have split: "(p + 65535) div 65536 = p div 65536 + (r + 65535) div 65536"
    by (simp add: div_add1_eq[of p 65535 65536] r_def)
  have neg: "(- p) div 65536 = (if r = 0 then - (p div 65536) else - (p div 65536) - 1)"
    unfolding r_def by (rule zdiv_zminus1_eq_if) simp
  show ?thesis
  proof (cases "r = 0")
    case True
    then show ?thesis by (simp add: split neg)
  next
    case False
    with r have "r + 65535 = 65536 * 1 + (r - 1)" "0 \<le> r - 1" "r - 1 < 65536" by simp_all
    then have "(r + 65535) div 65536 = 1" by (rule int_div_pos_eq)
    with False show ?thesis by (simp add: split neg)
  qed
qed

lemma totalBlocks_exact:
  assumes "0 \<le> p" "p < 9007199254740992"
  shows "totalBlocks env p = (p + 65535) div 65536"
proof (cases "p = 0")
  case True
  then show ?thesis
    by (simp add: totalBlocks_def float64_of_int64_def float64_div_def math_Ceil_def
        uint64_of_float64_def float64_blockSize)
next
  case False
  with assms have pos: "0 < p" by simp
  define s where "s = nat (53 - bitlen p)"
  define m where "m = p * 2 ^ s"
  define c where "c = (p + 65535) div 65536"
  have le: "bitlen p \<le> 53" using assms(2) by (simp add: bitlen_le_iff_power)
  have fp: "float64_of_int64 p = (m, bitlen p - 53)"
    using pos assms(2) round_ratio_int[of p] by (simp add: float64_of_int64_def m_def s_def)
  have bm: "bitlen m = 53" using pos le by (simp add: m_def s_def)
  have m_lo: "4503599627370496 \<le> m" using bm bitlen_ge_iff_power[of 53 m] by simp
  have m_hi: "m < 9007199254740992" using bm bitlen_le_iff_power[of m 53] by simp
  have mpos: "0 < m" using m_lo by simp
  have q: "float64_div (float64_of_int64 p) (float64_of_int64 blockSize) = (m, bitlen p - 69)"
    using m_lo m_hi mpos round_ratio_normal[of m]
    by (simp add: float64_div_def fp float64_blockSize)
  have e: "nat (69 - bitlen p) = s + 16" using le by (simp add: s_def)
  have "((- p) * 2 ^ s) div (65536 * 2 ^ s) = (- p) div 65536"
    by (rule div_mult_mult2) simp
  moreover have "- m = (- p) * 2 ^ s" by (simp add: m_def)
  moreover have "(2::int) ^ (s + 16) = 65536 * 2 ^ s" by (simp add: power_add)
  ultimately have "(- m) div 2 ^ (s + 16) = (- p) div 65536" by simp
  then have d: "- ((- m) div 2 ^ (s + 16)) = c"
    by (simp add: c_def ceil_div_65536)
  have ceil: "math_Ceil (m, bitlen p - 69) = (c, 0)"
    using le e d by (simp add: math_Ceil_def)
  have r1: "0 \<le> c" using pos by (simp add: c_def pos_imp_zdiv_nonneg_iff)
  have "65536 * c + (p + 65535) mod 65536 = p + 65535"
    unfolding c_def by (rule mult_div_mod_eq)
  moreover have "0 \<le> (p + 65535) mod 65536" by simp
  ultimately have "c \<le> p + 65535" using r1 by linarith
  then have r2: "c < 18446744073709551616" using assms(2) by simp
  have "uint64_of_float64 env (c, 0) = c"
    unfolding uint64_of_float64_def using r1 r2 by (simp add: Let_def)
  then show ?thesis unfolding totalBlocks_def q ceil c_def .
qed

lemma totalBlocks_plaintextBlocks:
  assumes "0 \<le> p" "p < 9007199254740992"
  shows "totalBlocks env p = plaintextBlocks p"
  using assms by (simp add: totalBlocks_exact plaintextBlocks_def)

lemma hashNonce_is_writer_nonce_below_2_53:
  assumes "0 \<le> p" "p < 9007199254740992"
  shows "hashNonce env start p = map_option setLastByte (encrypterNonceAtEOF start p)"
  using assms
  by (simp add: hashNonce_def encrypterNonceAtEOF_def totalBlocks_plaintextBlocks
      split: option.splits)

subsection \<open>The nonce as a little-endian integer\<close>

text \<open>
  Adding to a nonce adds to its value as a little-endian unsigned integer; what does not
  fit in its bytes is the carry that \<open>nonce_add\<close> refuses.
\<close>

lemma add_carry_value:
  "nonce_value (fst (add_carry n c)) + 256 ^ length n * snd (add_carry n c) = nonce_value n + c"
proof (induction n arbitrary: c)
  case Nil
  then show ?case by simp
next
  case (Cons b bs)
  define s where "s = uint b + c"
  obtain bs' c' where r: "add_carry bs (s div 256) = (bs', c')"
    by (cases "add_carry bs (s div 256)") auto
  from Cons.IH[of "s div 256"] r
  have IH: "nonce_value bs' + 256 ^ length bs * c' = nonce_value bs + s div 256" by simp
  have u: "uint (word_of_int (s mod 256) :: byte) = s mod 256"
    by (simp add: uint_word_of_int_eq take_bit_eq_mod)
  have step: "add_carry (b # bs) c = (word_of_int (s mod 256) # bs', c')"
    using r by (simp add: s_def Let_def)
  have "nonce_value (fst (add_carry (b # bs) c)) + 256 ^ length (b # bs) * snd (add_carry (b # bs) c)
      = s mod 256 + 256 * (nonce_value bs' + 256 ^ length bs * c')"
    unfolding step by (simp add: u algebra_simps)
  also have "\<dots> = s mod 256 + 256 * (nonce_value bs + s div 256)"
    by (simp only: IH)
  also have "\<dots> = s mod 256 + 256 * (s div 256) + 256 * nonce_value bs"
    by (simp add: algebra_simps)
  also have "\<dots> = s + 256 * nonce_value bs" by simp
  finally show ?case by (simp add: s_def)
qed

lemma add_carry_length: "length (fst (add_carry n c)) = length n"
proof (induction n arbitrary: c)
  case Nil
  then show ?case by simp
next
  case (Cons b bs)
  obtain bs' c' where r: "add_carry bs ((uint b + c) div 256) = (bs', c')"
    by (cases "add_carry bs ((uint b + c) div 256)") auto
  with Cons.IH[of "(uint b + c) div 256"] show ?case by (simp add: Let_def)
qed

lemma nonce_add_value:
  "nonce_add n k = Some n' \<Longrightarrow> nonce_value n' = nonce_value n + k \<and> length n' = length n"
  using add_carry_value[of n k] add_carry_length[of n k]
  by (auto simp: nonce_add_def Let_def split: prod.splits if_splits)

subsection \<open>The function of ListR and the tranches of a recursive listing\<close>

lemma encryptEntries_all_decryptable:
  assumes "\<forall>e\<in>set entries. \<not> is_unknown e" and "undecryptable f entries = []"
  shows "fst (encryptEntries f entries) = Inr (map (listed f) (decryptable f entries))"
proof -
  have "filter (\<lambda>e. entry_error f e \<noteq> None) entries = []"
    using assms(2)
    by (auto simp: undecryptable_def entry_error_def filter_empty_conv split: option.splits)
  then show ?thesis
    using loop_fst[OF assms(1), of f "[]" 0 None "[]"]
    by (simp add: encryptEntries_def)
qed

lemma ListR_fn_fst:
  "fst (ListR_fn f callback entries) =
     (case fst (encryptEntries f entries) of Inl e \<Rightarrow> Some e | Inr n \<Rightarrow> callback n)"
  by (auto simp: ListR_fn_def split: prod.splits sum.splits)

lemma ListR_fn_snd:
  "snd (ListR_fn f callback entries) = snd (encryptEntries f entries)"
  by (auto simp: ListR_fn_def split: prod.splits sum.splits)

lemma run_tranches_prefix:
  "\<forall>p\<in>set pre. fst (fn p) = None \<Longrightarrow>
   run_tranches (pre @ rest) final fn =
     (fst (run_tranches rest final fn),
      concat (map (\<lambda>p. snd (fn p)) pre) @ snd (run_tranches rest final fn))"
  by (induction pre) (auto split: prod.splits option.splits)

lemma run_tranches_fst_Some:
  "fst (fn t) = Some e \<Longrightarrow> fst (run_tranches (t # ts) final fn) = Some e"
  by (auto split: prod.splits option.splits)

lemma run_tranches_snd_head:
  "set (snd (fn t)) \<subseteq> set (snd (run_tranches (t # ts) final fn))"
  by (auto split: prod.splits option.splits)

lemma run_tranches_deliver:
  "\<forall>t\<in>set tranches. fst (fn t) = callback (g t) \<Longrightarrow>
   fst (run_tranches tranches final fn) = deliver callback (map g tranches) final"
  by (induction tranches) (auto split: prod.splits option.splits)

subsection \<open>PutUnchecked without data encryption\<close>

text \<open>
  \<open>PutUnchecked\<close> is no caller of \<open>put\<close>: with \<open>NoDataEncryption\<close> set it still hands the
  stream wrapped by \<open>encryptData\<close> to the underlying store, under the encrypted name and
  with the size of the source.
\<close>

lemma PutUnchecked_ignores_NoDataEncryption:
  assumes "NoDataEncryption (f_opt f)"
    and "ufs_PutUnchecked (f_Fs f) = Some do'"
    and "encryptData (f_cipher f) in' = Inr (wrappedIn, encrypter)"
  shows "snd (Fs_PutUnchecked f in' src) =
     [PutEv (EncryptFileName (f_cipher f) (si_Remote src)) (si_Size src) wrappedIn]"
  using assms
  by (simp add: Fs_PutUnchecked_def info_view_def ObjectInfo_Size_def ObjectInfo_Remote_def
      newObjectInfo_def Let_def split: prod.splits put_result.splits)

section \<open>Properties of the specification\<close>

text \<open>
  C1. The claim: for every V2 object, the nonce under which the footer is sealed at write
  time and opened at read time is the starting nonce plus the number of blocks,
  \<open>ceil(plaintextSize / 65536)\<close>, with the last-block-flag set, by the same derivation on
  both sides. \<open>Object.Hash\<close> counts the blocks in float64, and beyond \<open>2 ^ 53\<close> bytes the
  count is wrong: for a plaintext of \<open>2 ^ 53 + 1\<close> bytes there are \<open>2 ^ 37 + 1\<close> blocks,
  \<open>Object.Hash\<close> counts \<open>2 ^ 37\<close>, the nonce it derives is not the one the footer was
  sealed under, and the hash of the object cannot be read.
\<close>

theorem C1_footer_nonce_at_2_53_plus_1:
  "ex_big = 2 ^ 53 + 1 \<and>
   plaintextBlocks ex_big = 2 ^ 37 + 1 \<and>
   totalBlocks ex_env ex_big = 2 ^ 37 \<and>
   footerNonce ex_big_encrypter =
     [8, 0, 0, 0, 32, 0, 0, 0, 0, 0, 0, 0, 0, 0, 0, 0, 0, 0, 0, 0, 0, 0, 0, 0x80] \<and>
   hashNonce ex_env ex_nonce ex_big =
     Some [7, 0, 0, 0, 32, 0, 0, 0, 0, 0, 0, 0, 0, 0, 0, 0, 0, 0, 0, 0, 0, 0, 0, 0x80] \<and>
   fst (Object_Hash ex_env (ex_fs ''v2'' False False) (newObject ex_big_object) HashMD5) =
     Inl (Errorf ''Hash decryption error: %s'' [AErr ErrorEncryptedBadBlock])"
  by code_simp

text \<open>
  C2, as the claim states it: for every hash request on a V2 object, \<open>Object.Hash\<close>
  reads the final 33 bytes and, the header byte being 0x01, returns the hexadecimal MD5.
  It fails in two ways. When the configured \<open>cipher_version\<close> is v1: the first stored
  object below is of version 2, its footer starts with 0x01 and gives its MD5 under a
  v2 configuration, and under the v1 configuration the request reads nothing and is
  refused as unsupported. When the decrypted size cannot be worked out: the second
  stored object is of version 2 as well, with the same footer after 16 bytes that are no
  sealed block, and under a v2 configuration the request reads the footer and returns
  the error of the size, not the MD5.
\<close>

theorem C2_counterexample:
  "detectedVersion (ex_fs ''v1'' False False) (newObject ex_v2_object) = Some CipherVersionV2 \<and>
   take 1 ex_v2_footer = HashHeaderMD5 \<and>
   fst (Object_Hash ex_env (ex_fs ''v2'' False False) (newObject ex_v2_object) HashMD5) =
     Inr ''d41d8cd98f00b204e9800998ecf8427e'' \<and>
   Object_Hash ex_env (ex_fs ''v1'' False False) (newObject ex_v2_object) HashMD5 =
     (Inl ErrUnsupported, []) \<and>
   detectedVersion (ex_fs ''v2'' False False) (newObject ex_short_object) = Some CipherVersionV2 \<and>
   u_Open ex_short_object [RangeOption (129 - 33) (129 - 1)] = Inr ex_v2_footer \<and>
   Object_Hash ex_env (ex_fs ''v2'' False False) (newObject ex_short_object) HashMD5 =
     (Inl (External ''bad ciphertext length''),
      [OpenEv ''ea'' [RangeOption 0 79], CloseEv ''ea'', OpenEv ''ea'' [RangeOption 96 128]])"
  by code_simp

text \<open>
  C2, amended: for every hash request on a V2 object when the configured
  \<open>cipher_version\<close> is not v1 and the header and the 33 bytes of the footer are read,
  \<open>Object.Hash\<close> opens the underlying object on exactly its final 33 bytes, read as
  \<open>hashHeader || sealedHash\<close>. If \<open>hashHeader\<close> is 0x00 the result is the unsupported-hash
  error. If it is 0x01, the decrypted size is worked out without error and the footer
  nonce is derived without overflow of the counter, then: when \<open>sealedHash\<close> opens under
  the CEK and that nonce, the result is the hexadecimal encoding of the 16 bytes it
  holds, the MD5 that the writer sealed (a sealed box opens to 16 bytes fewer than it
  has); when it does not open, the result is a hash decryption error, unless
  \<open>pass_bad_blocks\<close> is set, and then it is the empty string.
\<close>

theorem C2_hash_of_V2_object:
  assumes "CipherVersion (f_opt f) \<noteq> CipherVersionV1"
    and "getDecrypter f ob None = (Inr d, evs)"
    and "dec_cipherVersion d \<noteq> CipherVersionV1"
    and "u_Open (o_Object ob)
           [RangeOption (int64_sub (u_Size (o_Object ob)) 33) (int64_sub (u_Size (o_Object ob)) 1)]
         = Inr in'"
    and "take 33 in' = hashHeader # sealedHash"
    and "length sealedHash = 32"
    and "\<And>box n' k h. secretbox_Open env box n' k = Some h \<Longrightarrow>
           int (length box) = int (length h) + secretbox_Overhead"
  shows
    "take (Suc (length evs)) (snd (Object_Hash env f ob ht)) =
       evs @ [OpenEv (u_Remote (o_Object ob))
                [RangeOption (int64_sub (u_Size (o_Object ob)) 33)
                   (int64_sub (u_Size (o_Object ob)) 1)]] \<and>
     (hashHeader = 0 \<longrightarrow> fst (Object_Hash env f ob ht) = Inl ErrUnsupported) \<and>
     (hashHeader = 1 \<and>
      (if exactSize (f_cipher f) then DecryptedSizeExact (f_cipher f) ob
       else DecryptedSize (f_cipher f) (u_Size (o_Object ob)) (dec_cipherVersion d)) = (size', None) \<and>
      hashNonce env (dec_nonce d) size' = Some n \<longrightarrow>
        (\<forall>h. secretbox_Open env sealedHash n (dec_cek d) = Some h \<longrightarrow>
           fst (Object_Hash env f ob ht) = Inr (hex_EncodeToString h) \<and>
           int (length h) = HashCryptSize \<and> length (hex_EncodeToString h) = 32) \<and>
        (secretbox_Open env sealedHash n (dec_cek d) = None \<longrightarrow>
           fst (Object_Hash env f ob ht) =
             (if passBadBlocks (f_cipher f) then Inr []
              else Inl (Errorf ''Hash decryption error: %s'' [AErr ErrorEncryptedBadBlock]))))"
proof -
  let ?opts = "[RangeOption (int64_sub (u_Size (o_Object ob)) 33)
                   (int64_sub (u_Size (o_Object ob)) 1)]"
  let ?F = "hashFromFooter env f ob d (hashHeader # sealedHash)"
  have H: "Object_Hash env f ob ht =
      (fst ?F, (evs @ [OpenEv (u_Remote (o_Object ob)) ?opts]) @ snd ?F)"
    using assms(1-6)
    by (simp add: Object_Hash_def HashEncryptedSizeWithHeader_def HashEncryptedSize_def
        HashCryptSize_def secretbox_Overhead_def Let_def split: prod.splits)
  have ev: "take (Suc (length evs)) (snd (Object_Hash env f ob ht)) =
      evs @ [OpenEv (u_Remote (o_Object ob)) ?opts]"
    by (simp add: H)
  have z: "hashHeader = 0 \<Longrightarrow> fst ?F = Inl ErrUnsupported"
    by (simp add: hashFromFooter_def HashHeaderNoHash_def)
  have o: "fst ?F =
      (case secretbox_Open env sealedHash n (dec_cek d) of
         Some h \<Rightarrow> Inr (hex_EncodeToString h)
       | None \<Rightarrow>
           if passBadBlocks (f_cipher f) then Inr []
           else Inl (Errorf ''Hash decryption error: %s'' [AErr ErrorEncryptedBadBlock]))"
    if "hashHeader = 1"
      and "(if exactSize (f_cipher f) then DecryptedSizeExact (f_cipher f) ob
            else DecryptedSize (f_cipher f) (u_Size (o_Object ob)) (dec_cipherVersion d)) = (size', None)"
      and "hashNonce env (dec_nonce d) size' = Some n"
    using that
    by (simp add: hashFromFooter_def HashHeaderNoHash_def openHash_def hex_EncodeToString_def
        split: option.splits)
  have len: "int (length h) = HashCryptSize \<and> length (hex_EncodeToString h) = 32"
    if "secretbox_Open env sealedHash n (dec_cek d) = Some h" for h
  proof -
    from assms(7)[OF that] assms(6) have "length h = 16"
      by (simp add: secretbox_Overhead_def)
    moreover have "length (hex_EncodeToString xs) = 2 * length xs" for xs
      by (induction xs) (simp_all add: hex_EncodeToString_def)
    ultimately show ?thesis by (simp add: HashCryptSize_def)
  qed
  show ?thesis using ev z o len by (auto simp: H)
qed

theorem C2_hash_of_V2_object_witness:
  "CipherVersion (f_opt (ex_fs ''v2'' False False)) \<noteq> CipherVersionV1 \<and>
   take (Suc (length [OpenEv ''ea'' [RangeOption 0 79], CloseEv ''ea'']))
     (snd (Object_Hash ex_env (ex_fs ''v2'' False False) (newObject ex_v2_object) HashMD5)) =
     [OpenEv ''ea'' [RangeOption 0 79], CloseEv ''ea'', OpenEv ''ea'' [RangeOption 80 112]] \<and>
   fst (Object_Hash ex_env (ex_fs ''v2'' False False) (newObject ex_v2_object) HashMD5) =
     Inr ''d41d8cd98f00b204e9800998ecf8427e'' \<and>
   int (length ex_md5_empty) = HashCryptSize"
proof -
  let ?f = "ex_fs ''v2'' False False" and ?ob = "newObject ex_v2_object"
  let ?d = "\<lparr>dec_nonce = ex_nonce, dec_cek = replicate 32 9, dec_cipherVersion = ''v2'',
             dec_Close = None\<rparr>"
  let ?n = "[7, 0, 0, 0, 0, 0, 0, 0, 0, 0, 0, 0, 0, 0, 0, 0, 0, 0, 0, 0, 0, 0, 0, 0x80] :: nonce"
  have a: "CipherVersion (f_opt ?f) \<noteq> CipherVersionV1"
    by (simp add: ex_fs_def ex_opt_def CipherVersionV1_def)
  have b: "getDecrypter ?f ?ob None = (Inr ?d, [OpenEv ''ea'' [RangeOption 0 79], CloseEv ''ea''])"
    by code_simp
  have c: "dec_cipherVersion ?d \<noteq> CipherVersionV1"
    by (simp add: CipherVersionV1_def)
  have sz: "u_Size (o_Object ?ob) = 113" and rm: "u_Remote (o_Object ?ob) = ''ea''"
    by (simp_all add: newObject_def ex_v2_object_def)
  have e: "u_Open (o_Object ?ob)
        [RangeOption (int64_sub (u_Size (o_Object ?ob)) 33) (int64_sub (u_Size (o_Object ?ob)) 1)]
      = Inr ex_v2_footer"
    by code_simp
  have g: "take 33 ex_v2_footer = 1 # ex_Seal ex_md5_empty (setLastByte ex_nonce) (replicate 32 9)"
    by code_simp
  have h: "length (ex_Seal ex_md5_empty (setLastByte ex_nonce) (replicate 32 9)) = 32"
    by code_simp
  have box: "int (length box) = int (length p) + secretbox_Overhead"
    if "secretbox_Open ex_env box n' k = Some p" for box n' k p
    using that
    by (auto simp: ex_env_def ex_Open_def secretbox_Overhead_def split: if_splits)
  have i: "(if exactSize (f_cipher ?f) then DecryptedSizeExact (f_cipher ?f) ?ob
       else DecryptedSize (f_cipher ?f) (u_Size (o_Object ?ob)) (dec_cipherVersion ?d)) = (0, None)"
    by code_simp
  have j: "hashNonce ex_env (dec_nonce ?d) 0 = Some ?n"
    by code_simp
  have k: "secretbox_Open ex_env (ex_Seal ex_md5_empty (setLastByte ex_nonce) (replicate 32 9))
      ?n (dec_cek ?d) = Some ex_md5_empty"
    by code_simp
  have l: "hex_EncodeToString ex_md5_empty = ''d41d8cd98f00b204e9800998ecf8427e''"
    by code_simp
  have m: "int64_sub 113 33 = 80" "int64_sub 113 1 = 112"
    by (simp_all add: int64_sub_def wrap64_def)
  note T = C2_hash_of_V2_object[OF a b c e g h box, where ht = HashMD5
      and size' = 0 and n = ?n]
  have 1: "take (Suc (length [OpenEv ''ea'' [RangeOption 0 79], CloseEv ''ea'']))
     (snd (Object_Hash ex_env ?f ?ob HashMD5)) =
     [OpenEv ''ea'' [RangeOption 0 79], CloseEv ''ea'', OpenEv ''ea'' [RangeOption 80 112]]"
    using T by (simp add: sz rm m)
  have 2: "fst (Object_Hash ex_env ?f ?ob HashMD5) = Inr ''d41d8cd98f00b204e9800998ecf8427e''"
    and 3: "int (length ex_md5_empty) = HashCryptSize"
    using T i j k l by simp_all
  from a 1 2 3 show ?thesis by blast
qed

text \<open>
  C3, as the claim states it: for every upload through \<open>put\<close> with data encryption
  enabled, when a hash of the uploaded ciphertext is computed and the hash that the
  destination reports differs from it, \<open>put\<close> removes the new object and returns the
  error. It fails when the destination reports the empty hash: below, the hash of the
  ciphertext is computed and is not empty, the destination reports the empty string,
  which differs from it, and \<open>put\<close> returns the object, with no removal and no error.
\<close>

theorem C3_counterexample:
  "\<not> NoDataEncryption (f_opt (ex_fs ''v2'' False False)) \<and>
   ex_sum (replicate 32 0 @ [1, 2, 3]) = ''00000000000000000000000000000000'' \<and>
   u_Hash (ex_object ''ea'') HashMD5 = Inr [] \<and>
   put ex_env (ex_fs ''v2'' False False) [1, 2, 3] \<lparr>si_Remote = ''a'', si_Size = 3\<rparr> ex_putFn =
     ((Some (Wrapped (newObject (ex_object ''ea''))), None),
      [PutEv ''ea'' 132 (replicate 32 0 @ [1, 2, 3])])"
proof -
  have 1: "\<not> NoDataEncryption (f_opt (ex_fs ''v2'' False False))"
    by (simp add: ex_fs_def ex_opt_def)
  have 2: "ex_sum (replicate 32 0 @ [1, 2, 3]) = ''00000000000000000000000000000000''"
    by code_simp
  have 3: "u_Hash (ex_object ''ea'') HashMD5 = Inr []"
    by (simp add: ex_object_def ex_hash_def)
  have v: "info_view (ex_fs ''v2'' False False)
      (newObjectInfo \<lparr>si_Remote = ''a'', si_Size = 3\<rparr> (replicate 24 0) (replicate 32 0)) =
      \<lparr>pi_Remote = ''ea'', pi_Size = 132\<rparr>"
    by (simp add: info_view_def ObjectInfo_Remote_def ObjectInfo_Size_def newObjectInfo_def
        ex_fs_def ex_cipher_def ex_opt_def ex_encrypt_def ex_EncryptedSize_def)
  have 4: "put ex_env (ex_fs ''v2'' False False) [1, 2, 3] \<lparr>si_Remote = ''a'', si_Size = 3\<rparr> ex_putFn =
     ((Some (Wrapped (newObject (ex_object ''ea''))), None),
      [PutEv ''ea'' 132 (replicate 32 0 @ [1, 2, 3])])"
    unfolding put_def using 1 2 3 v
    by (simp add: ex_fs_def ex_cipher_def ex_encryptData_def ex_env_def ex_ufs_def ex_hasher_def
        ex_putFn_def checkHashes_def)
  from 1 2 3 4 show ?thesis by blast
qed

text \<open>
  C3, amended: for every upload through \<open>put\<close> (\<open>Put\<close>, \<open>PutStream\<close> and \<open>Update\<close> call it
  with their put function) with data encryption enabled, when a hash of the uploaded
  ciphertext is computed, the destination reports a hash, both are non-empty and they
  differ, \<open>put\<close> attempts to remove the newly written object and, whether or not the
  removal succeeds, returns the error "corrupted on transfer" and no object.
\<close>

theorem C3_corrupted_on_transfer:
  assumes "\<not> NoDataEncryption (f_opt f)"
    and "encryptData (f_cipher f) in' = Inr (wrappedIn, encrypter)"
    and "ht = (if IgnoreChecksum env then HashNone else ufs_Hashes_GetOne (f_Fs f))"
    and "ht \<noteq> HashNone"
    and "NewMultiHasherTypes env ht = Inr hsum"
    and "put' wrappedIn
           (info_view f (newObjectInfo src (enc_initialNonce encrypter) (enc_cek encrypter)))
         = (PutOk o', n)"
    and "u_Hash o' ht = Inr dstHash"
    and "srcHash = hsum (take n wrappedIn)"
    and "srcHash \<noteq> []" and "dstHash \<noteq> []" and "srcHash \<noteq> dstHash"
  shows
    "fst (put env f in' src put') =
       (None,
        Some (Errorf ''corrupted on transfer: %v encrypted hashes differ src(%s) %q vs dst(%s) %q''
                [AHash ht, AStr (ufs_String (f_Fs f)), AStr srcHash, AStr (u_Fs_String o'),
                 AStr dstHash])) \<and>
     RemoveEv (u_Remote o') \<in> set (snd (put env f in' src put'))"
proof -
  have c: "checkHashes f src ht (Some hsum) (take n wrappedIn) o' =
      ((None,
        Some (Errorf ''corrupted on transfer: %v encrypted hashes differ src(%s) %q vs dst(%s) %q''
                [AHash ht, AStr (ufs_String (f_Fs f)), AStr srcHash, AStr (u_Fs_String o'),
                 AStr dstHash])),
       RemoveEv (u_Remote o') #
       (case u_Remove o' of
          Some e \<Rightarrow> [LogErrorf (u_Remote o') ''Failed to remove corrupted object: %v'' [AErr e]]
        | None \<Rightarrow> []))"
    using assms(4,7-11) by (simp add: checkHashes_def)
  have g: "(if IgnoreChecksum env then HashNone else ufs_Hashes_GetOne (f_Fs f)) = ht"
    using assms(3) by simp
  show ?thesis
    unfolding put_def using assms(1,2,4,5,6) c
    by (simp add: g Let_def)
qed

theorem C3_corrupted_on_transfer_witness:
  "\<not> NoDataEncryption (f_opt (ex_fs ''v2'' False False)) \<and>
   u_Hash (ex_object_other ''ea'') HashMD5 = Inr ''ffffffffffffffffffffffffffffffff'' \<and>
   u_Remove (ex_object_other ''ea'') = Some (External ''cannot remove'') \<and>
   fst (put ex_env (ex_fs ''v2'' False False) [1, 2, 3] \<lparr>si_Remote = ''a'', si_Size = 3\<rparr>
          ex_putFn_other) =
     (None,
      Some (Errorf ''corrupted on transfer: %v encrypted hashes differ src(%s) %q vs dst(%s) %q''
              [AHash HashMD5, AStr ''remote:'', AStr ''00000000000000000000000000000000'',
               AStr ''remote:'', AStr ''ffffffffffffffffffffffffffffffff''])) \<and>
   RemoveEv ''ea'' \<in> set (snd (put ex_env (ex_fs ''v2'' False False) [1, 2, 3]
                                  \<lparr>si_Remote = ''a'', si_Size = 3\<rparr> ex_putFn_other))"
proof -
  let ?f = "ex_fs ''v2'' False False"
  let ?enc = "\<lparr>enc_nonce = replicate 24 0, enc_initialNonce = replicate 24 0,
               enc_cek = replicate 32 0\<rparr>"
  let ?src = "\<lparr>si_Remote = ''a'', si_Size = 3\<rparr>"
  have 1: "\<not> NoDataEncryption (f_opt ?f)"
    by (simp add: ex_fs_def ex_opt_def)
  have 2: "encryptData (f_cipher ?f) [1, 2, 3] = Inr (replicate 32 0 @ [1, 2, 3], ?enc)"
    by (simp add: ex_fs_def ex_cipher_def ex_encryptData_def)
  have 3: "HashMD5 = (if IgnoreChecksum ex_env then HashNone else ufs_Hashes_GetOne (f_Fs ?f))"
    by (simp add: ex_env_def ex_fs_def ex_ufs_def)
  have 4: "HashMD5 \<noteq> HashNone" by simp
  have 5: "NewMultiHasherTypes ex_env HashMD5 = Inr ex_sum"
    by (simp add: ex_env_def ex_hasher_def)
  have v: "info_view ?f (newObjectInfo ?src (replicate 24 0) (replicate 32 0)) =
      \<lparr>pi_Remote = ''ea'', pi_Size = 132\<rparr>"
    by (simp add: info_view_def ObjectInfo_Remote_def ObjectInfo_Size_def newObjectInfo_def
        ex_fs_def ex_cipher_def ex_opt_def ex_encrypt_def ex_EncryptedSize_def)
  have 6: "ex_putFn_other (replicate 32 0 @ [1, 2, 3])
      (info_view ?f (newObjectInfo ?src (enc_initialNonce ?enc) (enc_cek ?enc))) =
      (PutOk (ex_object_other ''ea''), 35)"
    by (simp add: v ex_putFn_other_def)
  have 7: "u_Hash (ex_object_other ''ea'') HashMD5 = Inr ''ffffffffffffffffffffffffffffffff''"
    by (simp add: ex_object_other_def ex_hash_other_def)
  have 8: "''00000000000000000000000000000000'' = ex_sum (take 35 (replicate 32 0 @ [1, 2, 3]))"
    by code_simp
  have 9: "u_Remove (ex_object_other ''ea'') = Some (External ''cannot remove'')"
    "u_Remote (ex_object_other ''ea'') = ''ea''" "u_Fs_String (ex_object_other ''ea'') = ''remote:''"
    "ufs_String (f_Fs ?f) = ''remote:''"
    by (simp_all add: ex_object_other_def ex_fs_def ex_ufs_def)
  note T = C3_corrupted_on_transfer[where f = ?f and env = ex_env and in' = "[1, 2, 3]"
      and wrappedIn = "replicate 32 0 @ [1, 2, 3]" and encrypter = ?enc and ht = HashMD5
      and hsum = ex_sum and put' = ex_putFn_other and src = ?src
      and o' = "ex_object_other ''ea''" and n = 35
      and dstHash = "''ffffffffffffffffffffffffffffffff''"
      and srcHash = "''00000000000000000000000000000000''", OF 1 2 3 4 5 6 7 8]
  have "fst (put ex_env ?f [1, 2, 3] ?src ex_putFn_other) =
     (None,
      Some (Errorf ''corrupted on transfer: %v encrypted hashes differ src(%s) %q vs dst(%s) %q''
              [AHash HashMD5, AStr ''remote:'', AStr ''00000000000000000000000000000000'',
               AStr ''remote:'', AStr ''ffffffffffffffffffffffffffffffff'']))"
    and "RemoveEv ''ea'' \<in> set (snd (put ex_env ?f [1, 2, 3] ?src ex_putFn_other))"
    using T by (simp_all add: 9)
  with 1 7 9(1) show ?thesis by blast
qed

text \<open>
  C4. A directory listing whose entries are objects and directories, by \<open>List\<close> and by
  \<open>ListR\<close>. When \<open>strict_names\<close> is false, the entries whose names decrypt are returned,
  and for each entry whose name fails to decrypt a message that it is skipped is logged.
  When \<open>strict_names\<close> is true and some name fails to decrypt, the listing fails with an
  error that reports the number of such names and the error of the first of them.

  For \<open>List\<close> the entries are those that the underlying store lists under the encrypted
  name of the directory. For \<open>ListR\<close> the same holds of every tranche that the function
  given to the underlying store receives; and when the underlying store hands over the
  tranches of the encrypted directory one after the other, the callback of \<open>ListR\<close> is
  given the decryptable entries of each tranche in turn, the skip messages of every
  tranche that is reached are logged, and in strict mode the first tranche with an
  undecryptable name ends the listing with the error of that tranche.
\<close>

theorem C4_listing_undecryptable_names:
  "(ufs_List (f_Fs f) (EncryptDirName (f_cipher f) dir) = Inr entries \<and>
    (\<forall>e\<in>set entries. \<not> is_unknown e) \<longrightarrow>
      (\<not> StrictNames (f_opt f) \<longrightarrow>
         fst (Fs_List f dir) = Inr (map (listed f) (decryptable f entries)) \<and>
         (\<forall>e\<in>set entries. \<forall>er. name_err f e = Some er \<longrightarrow>
            skip_message e er \<in> set (snd (Fs_List f dir)))) \<and>
      (StrictNames (f_opt f) \<and> undecryptable f entries = b # bs \<and> name_err f b = Some erb \<longrightarrow>
         fst (Fs_List f dir) =
           Inl (Errorf ''there were %v undecryptable name errors. first error: %v''
                  [AInt (1 + int (length bs)), AErr (strict_error b erb)]))) \<and>
   ((\<forall>e\<in>set tr. \<not> is_unknown e) \<longrightarrow>
      (\<not> StrictNames (f_opt f) \<longrightarrow>
         fst (ListR_fn f callback tr) = callback (map (listed f) (decryptable f tr)) \<and>
         (\<forall>e\<in>set tr. \<forall>er. name_err f e = Some er \<longrightarrow>
            skip_message e er \<in> set (snd (ListR_fn f callback tr)))) \<and>
      (StrictNames (f_opt f) \<and> undecryptable f tr = c # cs \<and> name_err f c = Some erc \<longrightarrow>
         fst (ListR_fn f callback tr) =
           Some (Errorf ''there were %v undecryptable name errors. first error: %v''
                   [AInt (1 + int (length cs)), AErr (strict_error c erc)]))) \<and>
   (ufs_ListR (f_Fs f) (EncryptDirName (f_cipher f) dir) = run_tranches tranches final \<and>
    (\<forall>t\<in>set tranches. \<forall>e\<in>set t. \<not> is_unknown e) \<longrightarrow>
      (\<not> StrictNames (f_opt f) \<longrightarrow>
         fst (Fs_ListR f dir callback) =
           deliver callback (map (\<lambda>t. map (listed f) (decryptable f t)) tranches) final \<and>
         (tranches = pre @ t # post \<and>
          (\<forall>p\<in>set pre. callback (map (listed f) (decryptable f p)) = None) \<longrightarrow>
            (\<forall>e\<in>set t. \<forall>er. name_err f e = Some er \<longrightarrow>
               skip_message e er \<in> set (snd (Fs_ListR f dir callback))))) \<and>
      (StrictNames (f_opt f) \<and> tranches = pre @ t # post \<and>
       (\<forall>p\<in>set pre. undecryptable f p = [] \<and>
                      callback (map (listed f) (decryptable f p)) = None) \<and>
       undecryptable f t = d # ds \<and> name_err f d = Some erd \<longrightarrow>
         fst (Fs_ListR f dir callback) =
           Some (Errorf ''there were %v undecryptable name errors. first error: %v''
                   [AInt (1 + int (length ds)), AErr (strict_error d erd)])))"
proof -
  have List: "(\<not> StrictNames (f_opt f) \<longrightarrow>
         fst (Fs_List f dir) = Inr (map (listed f) (decryptable f entries)) \<and>
         (\<forall>e\<in>set entries. \<forall>er. name_err f e = Some er \<longrightarrow>
            skip_message e er \<in> set (snd (Fs_List f dir)))) \<and>
      (StrictNames (f_opt f) \<and> undecryptable f entries = b # bs \<and> name_err f b = Some erb \<longrightarrow>
         fst (Fs_List f dir) =
           Inl (Errorf ''there were %v undecryptable name errors. first error: %v''
                  [AInt (1 + int (length bs)), AErr (strict_error b erb)]))"
    if l: "ufs_List (f_Fs f) (EncryptDirName (f_cipher f) dir) = Inr entries"
      and u: "\<forall>e\<in>set entries. \<not> is_unknown e"
  proof -
    have L: "Fs_List f dir = encryptEntries f entries"
      using l by (simp add: Fs_List_def)
    show ?thesis
      using encryptEntries_lenient[OF u] encryptEntries_skip_logged[OF u]
        encryptEntries_strict[OF u, of f b bs erb]
      by (auto simp: L)
  qed
  have Fn: "(\<not> StrictNames (f_opt f) \<longrightarrow>
         fst (ListR_fn f callback x) = callback (map (listed f) (decryptable f x)) \<and>
         (\<forall>e\<in>set x. \<forall>er. name_err f e = Some er \<longrightarrow>
            skip_message e er \<in> set (snd (ListR_fn f callback x)))) \<and>
      (StrictNames (f_opt f) \<and> undecryptable f x = y # ys \<and> name_err f y = Some er \<longrightarrow>
         fst (ListR_fn f callback x) =
           Some (Errorf ''there were %v undecryptable name errors. first error: %v''
                   [AInt (1 + int (length ys)), AErr (strict_error y er)]))"
    if u: "\<forall>e\<in>set x. \<not> is_unknown e" for x y ys er
    using encryptEntries_lenient[OF u] encryptEntries_skip_logged[OF u]
      encryptEntries_strict[OF u, of f y ys er]
    by (auto simp: ListR_fn_fst ListR_fn_snd)
  have clean: "fst (ListR_fn f callback x) = callback (map (listed f) (decryptable f x))"
    if "\<forall>e\<in>set x. \<not> is_unknown e" and "undecryptable f x = []" for x
    using encryptEntries_all_decryptable[OF that] by (simp add: ListR_fn_fst)
  have ListR: "(\<not> StrictNames (f_opt f) \<longrightarrow>
         fst (Fs_ListR f dir callback) =
           deliver callback (map (\<lambda>t. map (listed f) (decryptable f t)) tranches) final \<and>
         (tranches = pre @ t # post \<and>
          (\<forall>p\<in>set pre. callback (map (listed f) (decryptable f p)) = None) \<longrightarrow>
            (\<forall>e\<in>set t. \<forall>er. name_err f e = Some er \<longrightarrow>
               skip_message e er \<in> set (snd (Fs_ListR f dir callback))))) \<and>
      (StrictNames (f_opt f) \<and> tranches = pre @ t # post \<and>
       (\<forall>p\<in>set pre. undecryptable f p = [] \<and>
                      callback (map (listed f) (decryptable f p)) = None) \<and>
       undecryptable f t = d # ds \<and> name_err f d = Some erd \<longrightarrow>
         fst (Fs_ListR f dir callback) =
           Some (Errorf ''there were %v undecryptable name errors. first error: %v''
                   [AInt (1 + int (length ds)), AErr (strict_error d erd)]))"
    if r: "ufs_ListR (f_Fs f) (EncryptDirName (f_cipher f) dir) = run_tranches tranches final"
      and u: "\<forall>t\<in>set tranches. \<forall>e\<in>set t. \<not> is_unknown e"
  proof -
    have R: "Fs_ListR f dir callback = run_tranches tranches final (ListR_fn f callback)"
      using r by (simp add: Fs_ListR_def)
    have a: "fst (Fs_ListR f dir callback) =
        deliver callback (map (\<lambda>t. map (listed f) (decryptable f t)) tranches) final"
      if s: "\<not> StrictNames (f_opt f)"
    proof -
      have "\<forall>x\<in>set tranches.
          fst (ListR_fn f callback x) = callback (map (listed f) (decryptable f x))"
        using Fn u s by blast
      from run_tranches_deliver[of tranches "ListR_fn f callback" callback
          "\<lambda>t. map (listed f) (decryptable f t)" final, OF this]
      show ?thesis by (simp add: R)
    qed
    have b: "skip_message e er \<in> set (snd (Fs_ListR f dir callback))"
      if s: "\<not> StrictNames (f_opt f)" and tr: "tranches = pre @ t # post"
        and pre: "\<forall>p\<in>set pre. callback (map (listed f) (decryptable f p)) = None"
        and e: "e \<in> set t" "name_err f e = Some er" for e er
    proof -
      have "fst (ListR_fn f callback p) = None" if "p \<in> set pre" for p
        using Fn[of p] u s tr pre that by auto
      then have "\<forall>p\<in>set pre. fst (ListR_fn f callback p) = None" by blast
      from run_tranches_prefix[OF this, of "t # post" final]
      have "set (snd (run_tranches (t # post) final (ListR_fn f callback)))
          \<subseteq> set (snd (Fs_ListR f dir callback))"
        by (simp add: R tr)
      moreover have "skip_message e er \<in> set (snd (ListR_fn f callback t))"
        using Fn[of t] u s tr e by simp
      ultimately show ?thesis
        using run_tranches_snd_head[of "ListR_fn f callback" t post final] by blast
    qed
    have c: "fst (Fs_ListR f dir callback) =
           Some (Errorf ''there were %v undecryptable name errors. first error: %v''
                   [AInt (1 + int (length ds)), AErr (strict_error d erd)])"
      if s: "StrictNames (f_opt f)" and tr: "tranches = pre @ t # post"
        and pre: "\<forall>p\<in>set pre. undecryptable f p = [] \<and>
                      callback (map (listed f) (decryptable f p)) = None"
        and t: "undecryptable f t = d # ds" "name_err f d = Some erd"
    proof -
      have "fst (ListR_fn f callback p) = None" if "p \<in> set pre" for p
        using clean[of p] u tr pre that by auto
      then have "\<forall>p\<in>set pre. fst (ListR_fn f callback p) = None" by blast
      from run_tranches_prefix[OF this, of "t # post" final]
      have "fst (Fs_ListR f dir callback) =
          fst (run_tranches (t # post) final (ListR_fn f callback))"
        by (simp add: R tr)
      moreover have "fst (ListR_fn f callback t) =
           Some (Errorf ''there were %v undecryptable name errors. first error: %v''
                   [AInt (1 + int (length ds)), AErr (strict_error d erd)])"
        using Fn[of t d ds erd] u s tr t by simp
      ultimately show ?thesis
        using run_tranches_fst_Some[of "ListR_fn f callback" t _ post final] by simp
    qed
    show ?thesis using a b c by blast
  qed
  show ?thesis
    using List Fn[of tr c cs erc] ListR by blast
qed

theorem C4_listing_undecryptable_names_witness:
  "fst (Fs_List (ex_fs ''v1'' False False) []) =
     Inr [CObject (newObject (ex_object ''ea'')), CDirectory ''d'' \<lparr>d_Remote = ''ed''\<rparr>] \<and>
   Logf ''plain'' ''Skipping undecryptable file name: %v'' [AErr (External ''not an encrypted name'')]
     \<in> set (snd (Fs_List (ex_fs ''v1'' False False) [])) \<and>
   Logf ''other'' ''Skipping undecryptable dir name: %v'' [AErr (External ''not an encrypted name'')]
     \<in> set (snd (Fs_List (ex_fs ''v1'' False False) [])) \<and>
   fst (Fs_List (ex_fs ''v1'' True False) []) =
     Inl (Errorf ''there were %v undecryptable name errors. first error: %v''
            [AInt 2, AErr (Errorf ''%s: undecryptable file name detected: %v''
                             [AStr ''plain'', AErr (External ''not an encrypted name'')])]) \<and>
   fst (Fs_ListR (ex_fs ''v1'' False False) [] ex_callback_two) = Some (External ''two entries'') \<and>
   Logf ''other'' ''Skipping undecryptable dir name: %v'' [AErr (External ''not an encrypted name'')]
     \<in> set (snd (Fs_ListR (ex_fs ''v1'' False False) [] ex_callback_two)) \<and>
   fst (Fs_ListR (ex_fs ''v1'' True False) [] ex_callback_two) =
     Some (Errorf ''there were %v undecryptable name errors. first error: %v''
            [AInt 2, AErr (Errorf ''%s: undecryptable file name detected: %v''
                             [AStr ''plain'', AErr (External ''not an encrypted name'')])])"
proof -
  let ?ea = "EObject (ex_object ''ea'')" and ?ed = "EDirectory \<lparr>d_Remote = ''ed''\<rparr>"
  let ?plain = "EObject (ex_object ''plain'')" and ?other = "EDirectory \<lparr>d_Remote = ''other''\<rparr>"
  let ?er = "External ''not an encrypted name''"
  have u: "\<forall>e\<in>set ex_entries. \<not> is_unknown e" by (simp add: ex_entries_def)
  have ut: "\<forall>t\<in>set ex_tranches. \<forall>e\<in>set t. \<not> is_unknown e"
    by (simp add: ex_tranches_def ex_entries_def)
  have l: "ufs_List (f_Fs (ex_fs ''v1'' s False))
      (EncryptDirName (f_cipher (ex_fs ''v1'' s False)) []) = Inr ex_entries" for s
    by (simp add: ex_fs_def ex_ufs_def ex_list_def ex_cipher_def ex_encrypt_def)
  have r: "ufs_ListR (f_Fs (ex_fs ''v1'' s False))
      (EncryptDirName (f_cipher (ex_fs ''v1'' s False)) []) = run_tranches ex_tranches None" for s
    by (simp add: ex_fs_def ex_ufs_def ex_listR_def ex_cipher_def ex_encrypt_def)
  have tr: "ex_tranches = [[?ea]] @ ex_entries # []"
    by (simp add: ex_tranches_def)
  have d: "decryptable (ex_fs ''v1'' s False) ex_entries = [?ea, ?ed]"
    and d1: "decryptable (ex_fs ''v1'' s False) [?ea] = [?ea]"
    and ud1: "undecryptable (ex_fs ''v1'' s False) [?ea] = []"
    and ud: "undecryptable (ex_fs ''v1'' s False) ex_entries = ?plain # [?other]" for s
    by (simp_all add: decryptable_def undecryptable_def ex_entries_def ex_name_err
        del: name_err.simps)
  have li: "listed (ex_fs ''v1'' s False) ?ea = CObject (newObject (ex_object ''ea''))"
    "listed (ex_fs ''v1'' s False) ?ed = CDirectory ''d'' \<lparr>d_Remote = ''ed''\<rparr>" for s
    by (simp_all add: newDir_def ex_fs_def ex_cipher_def)
  have s: "\<not> StrictNames (f_opt (ex_fs ''v1'' False False))"
    "StrictNames (f_opt (ex_fs ''v1'' True False))"
    by (simp_all add: ex_fs_def ex_opt_def)
  have cb: "ex_callback_two [CObject (newObject (ex_object ''ea''))] = None"
    "ex_callback_two [CObject (newObject (ex_object ''ea'')), CDirectory ''d'' \<lparr>d_Remote = ''ed''\<rparr>]
       = Some (External ''two entries'')"
    by (simp_all add: ex_callback_two_def)
  have pre: "\<forall>p\<in>set [[?ea]]. undecryptable (ex_fs ''v1'' s False) p = [] \<and>
      ex_callback_two (map (listed (ex_fs ''v1'' s False)) (decryptable (ex_fs ''v1'' s False) p)) = None"
    for s
    by (simp add: ud1 d1 li cb del: listed.simps)
  note A = C4_listing_undecryptable_names[where f = "ex_fs ''v1'' False False" and dir = "[]"
      and entries = ex_entries and tranches = ex_tranches and final = None
      and callback = ex_callback_two and pre = "[[?ea]]" and t = ex_entries and post = "[]"
      and tr = ex_entries]
  note B = C4_listing_undecryptable_names[where f = "ex_fs ''v1'' True False" and dir = "[]"
      and entries = ex_entries and tranches = ex_tranches and final = None
      and callback = ex_callback_two and pre = "[[?ea]]" and t = ex_entries and post = "[]"
      and tr = ex_entries
      and b = ?plain and bs = "[?other]" and erb = ?er
      and c = ?plain and cs = "[?other]" and erc = ?er
      and d = ?plain and ds = "[?other]" and erd = ?er]
  have A1: "fst (Fs_List (ex_fs ''v1'' False False) []) =
        Inr (map (listed (ex_fs ''v1'' False False)) (decryptable (ex_fs ''v1'' False False) ex_entries))"
    and A2: "\<forall>e\<in>set ex_entries. \<forall>er. name_err (ex_fs ''v1'' False False) e = Some er \<longrightarrow>
        skip_message e er \<in> set (snd (Fs_List (ex_fs ''v1'' False False) []))"
    using A l[of False] u s(1) by blast+
  have A3: "fst (Fs_ListR (ex_fs ''v1'' False False) [] ex_callback_two) =
        deliver ex_callback_two
          (map (\<lambda>t. map (listed (ex_fs ''v1'' False False))
                 (decryptable (ex_fs ''v1'' False False) t)) ex_tranches) None"
    using A r[of False] ut s(1) by blast
  have A4: "\<forall>e\<in>set ex_entries. \<forall>er. name_err (ex_fs ''v1'' False False) e = Some er \<longrightarrow>
        skip_message e er \<in> set (snd (Fs_ListR (ex_fs ''v1'' False False) [] ex_callback_two))"
    using A r[of False] ut s(1) tr pre[of False] by blast
  have B1: "fst (Fs_List (ex_fs ''v1'' True False) []) =
        Inl (Errorf ''there were %v undecryptable name errors. first error: %v''
               [AInt (1 + int (length [?other])), AErr (strict_error ?plain ?er)])"
    using B l[of True] u s(2) ud[of True] ex_name_err(2)[of "''v1''" True False] by blast
  have B2: "fst (Fs_ListR (ex_fs ''v1'' True False) [] ex_callback_two) =
        Some (Errorf ''there were %v undecryptable name errors. first error: %v''
               [AInt (1 + int (length [?other])), AErr (strict_error ?plain ?er)])"
    using B r[of True] ut s(2) tr pre[of True] ud[of True]
      ex_name_err(2)[of "''v1''" True False] by blast
  have 1: "fst (Fs_List (ex_fs ''v1'' False False) []) =
     Inr [CObject (newObject (ex_object ''ea'')), CDirectory ''d'' \<lparr>d_Remote = ''ed''\<rparr>]"
    using A1 by (simp add: d li del: listed.simps)
  have 2: "Logf ''plain'' ''Skipping undecryptable file name: %v'' [AErr ?er]
     \<in> set (snd (Fs_List (ex_fs ''v1'' False False) []))"
    using A2 ex_name_err(2)[of "''v1''" False False]
    by (auto simp: ex_entries_def ex_object_def)
  have 3: "Logf ''other'' ''Skipping undecryptable dir name: %v'' [AErr ?er]
     \<in> set (snd (Fs_List (ex_fs ''v1'' False False) []))"
    using A2 ex_name_err(4)[of "''v1''" False False]
    by (auto simp: ex_entries_def)
  have 4: "fst (Fs_List (ex_fs ''v1'' True False) []) =
     Inl (Errorf ''there were %v undecryptable name errors. first error: %v''
            [AInt 2, AErr (Errorf ''%s: undecryptable file name detected: %v''
                             [AStr ''plain'', AErr ?er])])"
    using B1 by (simp add: ex_object_def)
  have 5: "fst (Fs_ListR (ex_fs ''v1'' False False) [] ex_callback_two) =
      Some (External ''two entries'')"
    using A3 by (simp add: ex_tranches_def d d1 li cb del: listed.simps)
  have 6: "Logf ''other'' ''Skipping undecryptable dir name: %v'' [AErr ?er]
     \<in> set (snd (Fs_ListR (ex_fs ''v1'' False False) [] ex_callback_two))"
    using A4 ex_name_err(4)[of "''v1''" False False]
    by (auto simp: ex_entries_def)
  have 7: "fst (Fs_ListR (ex_fs ''v1'' True False) [] ex_callback_two) =
     Some (Errorf ''there were %v undecryptable name errors. first error: %v''
            [AInt 2, AErr (Errorf ''%s: undecryptable file name detected: %v''
                             [AStr ''plain'', AErr ?er])])"
    using B2 by (simp add: ex_object_def)
  from 1 2 3 4 5 6 7 show ?thesis by blast
qed



text \<open>
  C6, as the claim states it: for every stored object whose detected cipher version is
  V1, \<open>Object.Hash\<close> returns the empty string with no error. It fails under the default
  configuration: with \<open>cipher_version\<close> v1 the stored object of version 1 below gets the
  explicit unsupported-hash error, and its header is never read.
\<close>

theorem C6_counterexample:
  "CipherVersion (f_opt (ex_fs ''v1'' False False)) = CipherVersionV1 \<and>
   detectedVersion (ex_fs ''v1'' False False) (newObject ex_v1_object) = Some CipherVersionV1 \<and>
   Object_Hash ex_env (ex_fs ''v1'' False False) (newObject ex_v1_object) HashMD5 =
     (Inl ErrUnsupported, [])"
  by code_simp

text \<open>
  C6, amended: when the configured \<open>cipher_version\<close> is not v1, for every stored object
  whose header is read and whose detected cipher version is V1, \<open>Object.Hash\<close> returns the
  empty string with no error, rather than an explicit unsupported-hash error.
\<close>

theorem C6_hash_of_V1_object:
  assumes "CipherVersion (f_opt f) \<noteq> CipherVersionV1"
    and "detectedVersion f ob = Some CipherVersionV1"
  shows "fst (Object_Hash env f ob ht) = Inr []"
proof -
  obtain r evs where g: "getDecrypter f ob None = (r, evs)"
    by (cases "getDecrypter f ob None") auto
  with assms(2) obtain d where d: "r = Inr d" "dec_cipherVersion d = CipherVersionV1"
    by (cases r) (auto simp: detectedVersion_def)
  show ?thesis using assms(1) g d by (simp add: Object_Hash_def)
qed

theorem C6_hash_of_V1_object_witness:
  "CipherVersion (f_opt (ex_fs ''v2'' False False)) \<noteq> CipherVersionV1 \<and>
   detectedVersion (ex_fs ''v2'' False False) (newObject ex_v1_object) = Some CipherVersionV1 \<and>
   fst (Object_Hash ex_env (ex_fs ''v2'' False False) (newObject ex_v1_object) HashMD5) = Inr []"
proof -
  have a: "CipherVersion (f_opt (ex_fs ''v2'' False False)) \<noteq> CipherVersionV1"
    by (simp add: ex_fs_def ex_opt_def CipherVersionV1_def)
  have b: "detectedVersion (ex_fs ''v2'' False False) (newObject ex_v1_object) = Some CipherVersionV1"
    by code_simp
  from C6_hash_of_V1_object[OF a b] a b show ?thesis by blast
qed

text \<open>
  C7. The command \<open>decode\<close> applies \<open>DecryptFileName\<close> to each name in the order given.
  When every name decrypts, the list of the decoded names is returned. When a name fails
  to decrypt, the names before it having decrypted, the command fails with an error that
  names that input (and hands back the names decoded so far).
\<close>

theorem C7_decode:
  "(map (Fs_DecryptFileName f) arg = map Inr names \<longrightarrow>
      Fs_Command env f ''decode'' arg = ((OutStrings names, None), [])) \<and>
   (arg = pre @ bad # post \<and> map (Fs_DecryptFileName f) pre = map Inr names \<and>
    Fs_DecryptFileName f bad = Inl e \<longrightarrow>
      Fs_Command env f ''decode'' arg =
        ((OutStrings names,
          Some (Errorf ''failed to decrypt: %s: %w'' [AStr bad, AErr e])), []))"
proof (intro conjI impI)
  assume "map (Fs_DecryptFileName f) arg = map Inr names"
  from decode_loop_prefix[OF this, of "[]" "[]"]
  show "Fs_Command env f ''decode'' arg = ((OutStrings names, None), [])"
    by (simp add: Fs_Command_def)
next
  assume a: "arg = pre @ bad # post \<and> map (Fs_DecryptFileName f) pre = map Inr names \<and>
    Fs_DecryptFileName f bad = Inl e"
  then have "decode_loop f arg [] = decode_loop f (bad # post) names"
    using decode_loop_prefix[of f pre names "bad # post" "[]"] by simp
  with a show "Fs_Command env f ''decode'' arg =
        ((OutStrings names,
          Some (Errorf ''failed to decrypt: %s: %w'' [AStr bad, AErr e])), [])"
    by (simp add: Fs_Command_def)
qed

theorem C7_decode_witness:
  "map (Fs_DecryptFileName (ex_fs ''v1'' False False)) [''ea'', ''eb''] = map Inr [''a'', ''b''] \<and>
   Fs_Command ex_env (ex_fs ''v1'' False False) ''decode'' [''ea'', ''eb''] =
     ((OutStrings [''a'', ''b''], None), []) \<and>
   [''ea'', ''plain'', ''eb''] = [''ea''] @ ''plain'' # [''eb''] \<and>
   map (Fs_DecryptFileName (ex_fs ''v1'' False False)) [''ea''] = map Inr [''a''] \<and>
   Fs_DecryptFileName (ex_fs ''v1'' False False) ''plain'' = Inl (External ''not an encrypted name'') \<and>
   Fs_Command ex_env (ex_fs ''v1'' False False) ''decode'' [''ea'', ''plain'', ''eb''] =
     ((OutStrings [''a''],
       Some (Errorf ''failed to decrypt: %s: %w''
               [AStr ''plain'', AErr (External ''not an encrypted name'')])), [])"
proof -
  have d: "Fs_DecryptFileName (ex_fs ''v1'' False False) = ex_decrypt"
    by (rule ext) (simp add: Fs_DecryptFileName_def ex_fs_def ex_cipher_def)
  have 1: "map (Fs_DecryptFileName (ex_fs ''v1'' False False)) [''ea'', ''eb''] = map Inr [''a'', ''b'']"
    by (simp add: d)
  have 2: "[''ea'', ''plain'', ''eb''] = [''ea''] @ ''plain'' # [''eb''] \<and>
     map (Fs_DecryptFileName (ex_fs ''v1'' False False)) [''ea''] = map Inr [''a''] \<and>
     Fs_DecryptFileName (ex_fs ''v1'' False False) ''plain'' = Inl (External ''not an encrypted name'')"
    by (simp add: d)
  from C7_decode[of "ex_fs ''v1'' False False" "[''ea'', ''eb'']" "[''a'', ''b'']" ex_env] 1
  have 3: "Fs_Command ex_env (ex_fs ''v1'' False False) ''decode'' [''ea'', ''eb''] =
     ((OutStrings [''a'', ''b''], None), [])" by blast
  from C7_decode[of "ex_fs ''v1'' False False" "[''ea'', ''plain'', ''eb'']" "[''a'']" ex_env
      "[''ea'']" "''plain''" "[''eb'']" "External ''not an encrypted name''"] 2
  have 4: "Fs_Command ex_env (ex_fs ''v1'' False False) ''decode'' [''ea'', ''plain'', ''eb''] =
     ((OutStrings [''a''],
       Some (Errorf ''failed to decrypt: %s: %w''
               [AStr ''plain'', AErr (External ''not an encrypted name'')])), [])" by blast
  from 1 2 3 4 show ?thesis by blast
qed

text \<open>
  C8. Hash support is gated on the configured cipher version. When the option
  \<open>cipher_version\<close> is v1, \<open>Object.Hash\<close> returns the unsupported-hash error at once: the
  trace is empty, the object is not opened, whatever is stored. \<open>Fs.Hashes\<close> advertises
  MD5 exactly when the version of the Cipher, which \<open>newCipherForConfig\<close> makes from that
  option, is v2, and no hash type otherwise.
\<close>

theorem C8_hash_gated_on_configured_version:
  "(CipherVersion (f_opt f) = CipherVersionV1 \<longrightarrow>
      Object_Hash env f ob ht = (Inl ErrUnsupported, [])) \<and>
   (version (f_cipher f) = CipherVersionV2 \<longrightarrow> Fs_Hashes f = {HashMD5}) \<and>
   (version (f_cipher f) \<noteq> CipherVersionV2 \<longrightarrow> Fs_Hashes f = {})"
  by (simp add: Object_Hash_def Fs_Hashes_def)

theorem C8_hash_gated_on_configured_version_witness:
  "CipherVersion (f_opt (ex_fs ''v1'' False False)) = CipherVersionV1 \<and>
   detectedVersion (ex_fs ''v1'' False False) (newObject ex_v2_object) = Some CipherVersionV2 \<and>
   Object_Hash ex_env (ex_fs ''v1'' False False) (newObject ex_v2_object) HashMD5 =
     (Inl ErrUnsupported, []) \<and>
   Fs_Hashes (ex_fs ''v1'' False False) = {} \<and>
   Fs_Hashes (ex_fs ''v2'' False False) = {HashMD5}"
proof -
  have v1: "CipherVersion (f_opt (ex_fs ''v1'' False False)) = CipherVersionV1"
    by (simp add: ex_fs_def ex_opt_def CipherVersionV1_def)
  have c1: "version (f_cipher (ex_fs ''v1'' False False)) \<noteq> CipherVersionV2"
    by (simp add: ex_fs_def ex_cipher_def CipherVersionV2_def)
  have c2: "version (f_cipher (ex_fs ''v2'' False False)) = CipherVersionV2"
    by (simp add: ex_fs_def ex_cipher_def CipherVersionV2_def)
  have d: "detectedVersion (ex_fs ''v1'' False False) (newObject ex_v2_object) = Some CipherVersionV2"
    by code_simp
  from C8_hash_gated_on_configured_version
      [of "ex_fs ''v1'' False False" ex_env "newObject ex_v2_object" HashMD5] v1 c1
  have a: "Object_Hash ex_env (ex_fs ''v1'' False False) (newObject ex_v2_object) HashMD5 =
     (Inl ErrUnsupported, [])" and b: "Fs_Hashes (ex_fs ''v1'' False False) = {}"
    by blast+
  from C8_hash_gated_on_configured_version
      [of "ex_fs ''v2'' False False" ex_env "newObject ex_v2_object" HashMD5] c2
  have c: "Fs_Hashes (ex_fs ''v2'' False False) = {HashMD5}" by blast
  from v1 d a b c show ?thesis by blast
qed

text \<open>
  C9. For every source object whose reported size is negative (the size is unknown),
  \<open>ObjectInfo.Size\<close> returns that negative value unchanged: the encrypted-size formula
  is not applied.
\<close>

theorem C9_ObjectInfo_Size_negative:
  "si_Size (oi_ObjectInfo oi) < 0 \<Longrightarrow> ObjectInfo_Size f oi = si_Size (oi_ObjectInfo oi)"
  by (simp add: ObjectInfo_Size_def)

theorem C9_ObjectInfo_Size_negative_witness:
  "si_Size (oi_ObjectInfo (newObjectInfo \<lparr>si_Remote = ''a'', si_Size = - 1\<rparr> [] [])) < 0 \<and>
   ObjectInfo_Size (ex_fs ''v2'' False False)
     (newObjectInfo \<lparr>si_Remote = ''a'', si_Size = - 1\<rparr> [] []) = - 1"
  using C9_ObjectInfo_Size_negative
    [of "newObjectInfo \<lparr>si_Remote = ''a'', si_Size = - 1\<rparr> [] []" "ex_fs ''v2'' False False"]
  by (simp add: newObjectInfo_def)

text \<open>
  C10. For every object whose stored name fails to decrypt, \<open>Object.Remote\<close> returns the
  encrypted name of the underlying object unchanged; its result is a name, never an
  error.
\<close>

theorem C10_Object_Remote_undecryptable:
  "DecryptFileName (f_cipher f) (u_Remote (o_Object ob)) = Inl e \<Longrightarrow>
   fst (Object_Remote f ob) = u_Remote (o_Object ob)"
  by (simp add: Object_Remote_def Let_def)

theorem C10_Object_Remote_undecryptable_witness:
  "DecryptFileName (f_cipher (ex_fs ''v1'' False False))
     (u_Remote (o_Object (newObject (ex_object ''plain'')))) = Inl (External ''not an encrypted name'') \<and>
   fst (Object_Remote (ex_fs ''v1'' False False) (newObject (ex_object ''plain''))) = ''plain''"
  using C10_Object_Remote_undecryptable
    [of "ex_fs ''v1'' False False" "newObject (ex_object ''plain'')"
        "External ''not an encrypted name''"]
  by (simp add: ex_fs_def ex_cipher_def newObject_def ex_object_def)

end
